theory Spec2Isabelle
  imports Main "HOL-Library.Word"
begin

section \<open>BrowserFetcher: a shallow embedding of src/deno/BrowserFetcher.ts\<close>

text \<open>
  The development follows the source file top to bottom: the tables and the pure
  resolver functions first, then the runtime the code talks to (file system, network,
  external commands), then the operations of the class \<open>BrowserFetcher\<close>.

  JavaScript strings are modelled as \<open>string\<close> (lists of 8-bit characters), so code
  units above 255 are outside the model. Exceptions are values of the type \<open>error\<close>;
  an operation that can throw returns \<open>error + 'a\<close>, and where the side effects made
  before the throw remain visible it returns the state next to the outcome.
\<close>

subsection \<open>String helpers of the JavaScript runtime\<close>

text \<open>\<open>s.startsWith(p)\<close> and \<open>s.endsWith(p)\<close>.\<close>

definition startsWith :: "string \<Rightarrow> string \<Rightarrow> bool" where
  "startsWith s p \<longleftrightarrow> take (length p) s = p"

definition endsWith :: "string \<Rightarrow> string \<Rightarrow> bool" where
  "endsWith s p \<longleftrightarrow> length p \<le> length s \<and> drop (length s - length p) s = p"

text \<open>
  \<open>s.split(sep)\<close> for a one-character separator: the pieces between the separators,
  so a string with \<open>n\<close> separators gives \<open>n + 1\<close> pieces and \<open>"".split("-")\<close> is \<open>[""]\<close>.
\<close>

fun split :: "char \<Rightarrow> string \<Rightarrow> string list" where
  "split sep [] = [[]]"
| "split sep (c # cs) =
     (if c = sep then [] # split sep cs
      else (case split sep cs of
              [] \<Rightarrow> [[c]]
            | x # xs \<Rightarrow> (c # x) # xs))"

text \<open>\<open>s.includes(p)\<close>: \<open>p\<close> occurs in \<open>s\<close> as a contiguous substring.\<close>

fun includesStr :: "string \<Rightarrow> string \<Rightarrow> bool" where
  "includesStr [] p \<longleftrightarrow> p = []"
| "includesStr (c # cs) p \<longleftrightarrow> startsWith (c # cs) p \<or> includesStr cs p"

text \<open>
  \<open>s.toLowerCase()\<close> on 8-bit characters: the ASCII capitals and the capitals of the
  Latin-1 block move up by 32.
\<close>

definition lowerChar :: "char \<Rightarrow> char" where
  "lowerChar c =
     (let n = (of_char c :: nat)
      in if (65 \<le> n \<and> n \<le> 90) \<or> (192 \<le> n \<and> n \<le> 222 \<and> n \<noteq> 215)
         then char_of (n + 32) else c)"

definition toLowerCase :: "string \<Rightarrow> string" where
  "toLowerCase s = map lowerChar s"

text \<open>\<open>xs.join(sep)\<close> for a one-character separator.\<close>

fun joinWith :: "char \<Rightarrow> string list \<Rightarrow> string" where
  "joinWith sep [] = []"
| "joinWith sep [x] = x"
| "joinWith sep (x # y # ys) = x @ sep # joinWith sep (y # ys)"

text \<open>
  Numbers as \<open>parseInt\<close> returns them: not-a-number or an integer. (The rounding of
  integers above \<open>2^53\<close> to a double is not modelled.)
\<close>

datatype jsnum = NaN | Num int

text \<open>\<open>a > b\<close> on numbers: every comparison with NaN is false.\<close>

fun jsGreater :: "jsnum \<Rightarrow> jsnum \<Rightarrow> bool" where
  "jsGreater (Num a) (Num b) \<longleftrightarrow> a > b"
| "jsGreater _ _ \<longleftrightarrow> False"

definition isStrWhiteSpace :: "char \<Rightarrow> bool" where
  "isStrWhiteSpace c \<longleftrightarrow>
     c \<in> {CHR 0x09, CHR 0x0A, CHR 0x0B, CHR 0x0C, CHR 0x0D, CHR '' '', CHR 0xA0}"

definition isDigit :: "char \<Rightarrow> bool" where
  "isDigit c \<longleftrightarrow> (48::nat) \<le> of_char c \<and> of_char c \<le> (57::nat)"

definition digitValue :: "char \<Rightarrow> int" where
  "digitValue c = int (of_char c) - 48"

text \<open>
  \<open>parseInt(s, 10)\<close>: leading white space is skipped, one sign is accepted, then the
  longest run of decimal digits is read; no digit gives NaN.
\<close>

definition parseInt :: "string \<Rightarrow> jsnum" where
  "parseInt s =
     (let t = dropWhile isStrWhiteSpace s;
          neg = (t \<noteq> [] \<and> hd t = CHR ''-'');
          u = (if t \<noteq> [] \<and> (hd t = CHR ''-'' \<or> hd t = CHR ''+'') then tl t else t);
          ds = takeWhile isDigit u
      in if ds = [] then NaN
         else Num ((if neg then - 1 else 1) * foldl (\<lambda>a c. 10 * a + digitValue c) 0 ds))"

subsection \<open>Products, platforms and the URL tables\<close>

datatype product = Chrome | Firefox

datatype platform = Linux | LinuxArm64 | Mac | Win32 | Win64

text \<open>The string values of the TypeScript union types \<open>Product\<close> and \<open>Platform\<close>.\<close>

fun productName :: "product \<Rightarrow> string" where
  "productName Chrome = ''chrome''"
| "productName Firefox = ''firefox''"

fun platformName :: "platform \<Rightarrow> string" where
  "platformName Linux = ''linux''"
| "platformName LinuxArm64 = ''linux-arm64''"
| "platformName Mac = ''mac''"
| "platformName Win32 = ''win32''"
| "platformName Win64 = ''win64''"

text \<open>The constant \<open>downloadURLs\<close>: one template per product and platform.\<close>

fun downloadURLs :: "product \<Rightarrow> platform \<Rightarrow> string" where
  "downloadURLs Chrome Linux = ''%s/chromium-browser-snapshots/Linux_x64/%d/%s.zip''"
| "downloadURLs Chrome LinuxArm64 = ''%s/chromium-browser-snapshots/Linux_arm64/%d/%s.zip''"
| "downloadURLs Chrome Mac = ''%s/chromium-browser-snapshots/Mac/%d/%s.zip''"
| "downloadURLs Chrome Win32 = ''%s/chromium-browser-snapshots/Win/%d/%s.zip''"
| "downloadURLs Chrome Win64 = ''%s/chromium-browser-snapshots/Win_x64/%d/%s.zip''"
| "downloadURLs Firefox Linux = ''%s/firefox-%s.en-US.%s-x86_64.tar.bz2''"
| "downloadURLs Firefox LinuxArm64 = ''%s/firefox-%s.en-US.%s-aarch64.tar.bz2''"
| "downloadURLs Firefox Mac = ''%s/firefox-%s.en-US.%s.dmg''"
| "downloadURLs Firefox Win32 = ''%s/firefox-%s.en-US.%s.zip''"
| "downloadURLs Firefox Win64 = ''%s/firefox-%s.en-US.%s.zip''"

text \<open>
  The own keys of each inner object of \<open>downloadURLs\<close>: the five platform names.
\<close>

definition platformOfName :: "string \<Rightarrow> platform option" where
  "platformOfName k =
     (if k = ''linux'' then Some Linux
      else if k = ''linux-arm64'' then Some LinuxArm64
      else if k = ''mac'' then Some Mac
      else if k = ''win32'' then Some Win32
      else if k = ''win64'' then Some Win64
      else None)"

text \<open>
  The truthiness test \<open>downloadURLs[product]?.[key]\<close> with a key that is any string.
  Both inner objects are object literals, so besides their five own keys (each with a
  non-empty template, hence truthy) the lookup finds the properties every object
  inherits from the runtime's \<open>Object.prototype\<close> (\<open>constructor\<close>, \<open>toString\<close>, ...),
  which are functions and truthy as well. Their names belong to the JavaScript runtime,
  not to this repository, and are the parameter \<open>inherited\<close>.
\<close>

definition hasDownloadURL :: "string list \<Rightarrow> product \<Rightarrow> string \<Rightarrow> bool" where
  "hasDownloadURL inherited p k \<longleftrightarrow> platformOfName k \<noteq> None \<or> k \<in> set inherited"

text \<open>
  \<open>archiveName\<close>. The final \<open>throw\<close> of the source is reached only with a product or
  platform outside the two union types, which the datatypes exclude.
\<close>

fun archiveName :: "product \<Rightarrow> platform \<Rightarrow> string \<Rightarrow> string" where
  "archiveName Chrome Linux revision = ''chrome-linux''"
| "archiveName Chrome LinuxArm64 revision = ''chrome-linux''"
| "archiveName Chrome Mac revision = ''chrome-mac''"
| "archiveName Chrome Win32 revision =
     (if jsGreater (parseInt revision) (Num 591479) then ''chrome-win'' else ''chrome-win32'')"
| "archiveName Chrome Win64 revision =
     (if jsGreater (parseInt revision) (Num 591479) then ''chrome-win'' else ''chrome-win32'')"
| "archiveName Firefox platform revision = platformName platform"

subsection \<open>Folder names and their parser\<close>

text \<open>
  The name of an installed revision's folder, \<open>this._platform + "-" + revision\<close>, as
  \<open>_getFolderPath\<close> builds it.
\<close>

definition folderName :: "platform \<Rightarrow> string \<Rightarrow> string" where
  "folderName platform revision = platformName platform @ ''-'' @ revision"

record parsedName =
  pn_product :: product
  pn_platform :: string
  pn_revision :: string

text \<open>\<open>parseName\<close>; \<open>null\<close> is \<open>None\<close>.\<close>

definition parseName :: "string list \<Rightarrow> product \<Rightarrow> string \<Rightarrow> parsedName option" where
  "parseName inherited product name =
     (let splits = split CHR ''-'' name in
      case (if length splits = 2 then Some (splits ! 0, splits ! 1)
            else if length splits = 3 \<and> splits ! 0 = ''linux'' \<and> splits ! 1 = ''arm64''
              then Some (''linux-arm64'', splits ! 2)
            else None) of
        None \<Rightarrow> None
      | Some (platform, revision) \<Rightarrow>
          if \<not> hasDownloadURL inherited product platform then None
          else Some \<lparr>pn_product = product, pn_platform = platform, pn_revision = revision\<rparr>)"

subsection \<open>Formatting and paths (Deno standard library)\<close>

text \<open>
  \<open>sprintf\<close> of the standard library, for the two verbs the templates use: \<open>%s\<close>
  inserts the next argument as it is, \<open>%d\<close> inserts it formatted as a number. The
  arguments are strings here (the revision is passed to \<open>%d\<close> as a string), and how the
  library prints a string under \<open>%d\<close> is the parameter \<open>d\<close>. Other verbs and missing
  arguments do not occur in the templates; the model copies such text unchanged.
\<close>

fun sprintf :: "(string \<Rightarrow> string) \<Rightarrow> string \<Rightarrow> string list \<Rightarrow> string" where
  "sprintf d [] args = []"
| "sprintf d [c] args = [c]"
| "sprintf d (c # v # fmt) args =
     (if c = CHR ''%'' \<and> v = CHR ''s'' \<and> args \<noteq> [] then hd args @ sprintf d fmt (tl args)
      else if c = CHR ''%'' \<and> v = CHR ''d'' \<and> args \<noteq> [] then d (hd args) @ sprintf d fmt (tl args)
      else c # sprintf d (v # fmt) args)"

text \<open>
  \<open>normalize\<close> of the library's POSIX path module. The path is cut at its separators
  and the segments are read from left to right: an empty segment and \<open>.\<close> are dropped;
  \<open>..\<close> removes the segment before it, unless there is none or it is itself \<open>..\<close>, in
  which case \<open>..\<close> is kept in a relative path and dropped in an absolute one. A leading
  and a trailing separator are kept, and a relative path that becomes empty is \<open>.\<close>.
\<close>

fun normalizeSegments :: "bool \<Rightarrow> string list \<Rightarrow> string list \<Rightarrow> string list" where
  "normalizeSegments allowAboveRoot res [] = res"
| "normalizeSegments allowAboveRoot res (segment # rest) =
     (if segment = [] \<or> segment = ''.'' then normalizeSegments allowAboveRoot res rest
      else if segment = ''..'' then
        (if res \<noteq> [] \<and> last res \<noteq> ''..''
         then normalizeSegments allowAboveRoot (butlast res) rest
         else if allowAboveRoot then normalizeSegments allowAboveRoot (res @ [''..'']) rest
         else normalizeSegments allowAboveRoot res rest)
      else normalizeSegments allowAboveRoot (res @ [segment]) rest)"

definition normalizePath :: "string \<Rightarrow> string" where
  "normalizePath path =
     (if path = [] then ''.''
      else
        (let isAbsolute = (hd path = CHR ''/'');
             trailingSeparator = (last path = CHR ''/'');
             res = joinWith CHR ''/''
                     (normalizeSegments (\<not> isAbsolute) [] (split CHR ''/'' path));
             res1 = (if res = [] \<and> \<not> isAbsolute then ''.'' else res);
             res2 = (if res1 \<noteq> [] \<and> trailingSeparator then res1 @ ''/'' else res1)
         in if isAbsolute then CHR ''/'' # res2 else res2))"

text \<open>
  \<open>pathJoin\<close> (the library's \<open>join\<close>): the non-empty arguments joined with \<open>/\<close> and
  the result normalised; \<open>.\<close> when there is no non-empty argument. This is the POSIX
  variant; on a Windows host the library joins with backslashes, which is not modelled.
\<close>

definition pathJoin :: "string list \<Rightarrow> string" where
  "pathJoin segments =
     (let joined = joinWith CHR ''/'' (filter (\<lambda>s. s \<noteq> []) segments)
      in if joined = [] then ''.'' else normalizePath joined)"

subsection \<open>The runtime: errors, file system, network, external commands\<close>

text \<open>
  The conditions the code raises. The source throws plain \<open>Error\<close> objects told apart by
  their message; the constructors name them as the specification does:
  \<^item> \<open>DownloadFailed\<close>: "Download failed: server returned code ..." in \<open>downloadFile\<close>;
  \<^item> \<open>UnsupportedArchiveFormat\<close>: "Unsupported archive format: ..." in \<open>install\<close>;
  \<^item> \<open>ExtractionFailed\<close>: a failed assertion on an extraction subprocess, or a failure
    of the zip or disk-image routine;
  \<^item> \<open>NotInstalled\<close>: the failed assertion of \<open>remove\<close>;
  \<^item> \<open>UnsupportedArchitectureCombination\<close>: the empty \<open>Error\<close> thrown for Chrome on arm64;
  \<^item> \<open>UnsupportedProduct\<close>, \<open>UnsupportedPlatform\<close>: the failed assertions of the
    constructor;
  \<^item> \<open>NetworkError\<close>: \<open>fetch\<close> or the body stream rejects;
  \<^item> \<open>NotFound\<close>, \<open>AlreadyExists\<close>, \<open>IsADirectory\<close>, \<open>NotADirectory\<close>: errors of the
    file-system calls.
\<close>

datatype error =
    NetworkError
  | DownloadFailed nat string
  | UnsupportedArchiveFormat string
  | ExtractionFailed string
  | NotInstalled string
  | UnsupportedArchitectureCombination
  | UnsupportedProduct string
  | UnsupportedPlatform string
  | NotFound string
  | AlreadyExists string
  | IsADirectory string
  | NotADirectory string

type_synonym byte = "8 word"

type_synonym path = string

datatype node = File "byte list" | Dir

text \<open>
  The file system is a list of entries in enumeration order, one per path. It does not
  enforce that the parent of an entry is a directory; an operation fails exactly where
  the entry it acts on is missing or of the wrong kind. Permission bits are not part of
  the model.
\<close>

type_synonym fs = "(path \<times> node) list"

definition exists :: "fs \<Rightarrow> path \<Rightarrow> bool" where
  "exists fs p \<longleftrightarrow> map_of fs p \<noteq> None"

definition put :: "path \<Rightarrow> node \<Rightarrow> fs \<Rightarrow> fs" where
  "put p n fs =
     (if exists fs p then map (\<lambda>(q, m). if q = p then (q, n) else (q, m)) fs
      else fs @ [(p, n)])"

text \<open>\<open>pathUnder p q\<close>: the path \<open>q\<close> is \<open>p\<close> itself or lies below it.\<close>

definition pathUnder :: "path \<Rightarrow> path \<Rightarrow> bool" where
  "pathUnder p q \<longleftrightarrow> q = p \<or> startsWith q (p @ ''/'')"

text \<open>\<open>Deno.remove(p, {recursive: true})\<close> on an existing path.\<close>

definition removeRecursive :: "path \<Rightarrow> fs \<Rightarrow> fs" where
  "removeRecursive p fs = filter (\<lambda>(q, n). \<not> pathUnder p q) fs"

text \<open>\<open>Deno.mkdir(p, {recursive: true})\<close>.\<close>

definition mkdir :: "path \<Rightarrow> fs \<Rightarrow> error + fs" where
  "mkdir p fs =
     (case map_of fs p of
        None \<Rightarrow> Inr (fs @ [(p, Dir)])
      | Some Dir \<Rightarrow> Inr fs
      | Some (File c) \<Rightarrow> Inl (AlreadyExists p))"

text \<open>\<open>Deno.create(p)\<close>: creates the file or truncates it.\<close>

definition createFile :: "path \<Rightarrow> fs \<Rightarrow> error + fs" where
  "createFile p fs =
     (case map_of fs p of
        Some Dir \<Rightarrow> Inl (IsADirectory p)
      | _ \<Rightarrow> Inr (put p (File []) fs))"

text \<open>\<open>file.write(chunk)\<close> on the file created at \<open>p\<close>.\<close>

definition appendFile :: "path \<Rightarrow> byte list \<Rightarrow> fs \<Rightarrow> fs" where
  "appendFile p chunk fs =
     (case map_of fs p of
        Some (File c) \<Rightarrow> put p (File (c @ chunk)) fs
      | _ \<Rightarrow> fs)"

text \<open>
  \<open>Deno.rename(a, b)\<close>. The program renames only the archive it has just read, a
  regular file; renaming a directory is not modelled and reported as an error.
\<close>

definition rename :: "path \<Rightarrow> path \<Rightarrow> fs \<Rightarrow> error + fs" where
  "rename a b fs =
     (case map_of fs a of
        None \<Rightarrow> Inl (NotFound a)
      | Some Dir \<Rightarrow> Inl (IsADirectory a)
      | Some (File c) \<Rightarrow>
          if a = b then Inr fs
          else (case map_of fs b of
                  Some Dir \<Rightarrow> Inl (IsADirectory b)
                | _ \<Rightarrow> Inr (put b (File c) (filter (\<lambda>(q, n). q \<noteq> a) fs))))"

text \<open>\<open>Deno.chmod(p, 0o755)\<close>: fails on a missing path and changes no content.\<close>

definition chmod :: "path \<Rightarrow> fs \<Rightarrow> error + fs" where
  "chmod p fs = (if exists fs p then Inr fs else Inl (NotFound p))"

text \<open>
  \<open>Deno.readDir(dir)\<close>: the names of the entries directly inside \<open>dir\<close>, in
  enumeration order.
\<close>

definition childName :: "path \<Rightarrow> path \<Rightarrow> string option" where
  "childName dir q =
     (if startsWith q (dir @ ''/'') then
        (let n = drop (length dir + 1) q
         in if n \<noteq> [] \<and> CHR ''/'' \<notin> set n then Some n else None)
      else None)"

definition readDir :: "fs \<Rightarrow> path \<Rightarrow> error + string list" where
  "readDir fs dir =
     (case map_of fs dir of
        None \<Rightarrow> Inl (NotFound dir)
      | Some (File c) \<Rightarrow> Inl (NotADirectory dir)
      | Some Dir \<Rightarrow> Inr (List.map_filter (\<lambda>(q, n). childName dir q) fs))"

text \<open>
  The network. A response carries its status, its headers (names in lower case, as
  \<open>Headers.get\<close> looks them up) and its body as the chunks the stream delivers;
  \<open>bodyError\<close> says that the stream rejects after the last chunk.
\<close>

datatype http_method = HEAD | GET

record response =
  status :: nat
  headers :: "(string \<times> string) list"
  body :: "byte list list"
  bodyError :: bool

definition headerGet :: "response \<Rightarrow> string \<Rightarrow> string option" where
  "headerGet r name = map_of (headers r) name"

text \<open>The three ways the code runs \<open>tar\<close>: \<open>-xvf\<close>, \<open>-xzf\<close> and \<open>-xJf\<close>.\<close>

datatype tarMode = TarPlain | TarGzip | TarXz

text \<open>
  Everything outside the program that it reads: the build constants of the runtime, the
  cache directory that the vendored \<open>cachedir()\<close> returns, the inherited property names (see \<open>hasDownloadURL\<close>), the \<open>%d\<close> formatting of the
  library, the servers, and the external commands. A command is the function from the
  bytes it is given to its outcome:
  \<^item> \<open>fetch\<close>: the response, or \<open>None\<close> when the request rejects;
  \<^item> \<open>fileCommand\<close>: the standard output of \<open>file <path>\<close>, or \<open>None\<close> when running it
    throws;
  \<^item> \<open>bzcat\<close>: exit success and standard output;
  \<^item> \<open>tar\<close>: the entries it extracts, relative to the target, or \<open>None\<close> on a non-zero
    exit (entries written before the failure are not modelled);
  \<^item> \<open>makeTempFile\<close>: the path \<open>Deno.makeTempFile()\<close> returns;
  \<^item> \<open>hdiutilAttach\<close>: the standard output of \<open>hdiutil attach\<close>; \<open>volumeEntries\<close>:
    the names \<open>Deno.readDir\<close> yields at the mount point, or \<open>None\<close> when it throws
    (the mounted volume is not part of the modelled file system); \<open>copyDir\<close>: the
    entries the copy leaves below its target (the source does not await the copy, so its
    failure is not seen by the caller); \<open>hdiutilDetach\<close>: exit success of the detach;
  \<^item> \<open>unzip\<close>: the entries that \<open>readZip\<close> and \<open>unzip\<close> of the vendored zip module
    extract from the bytes, relative to the target, or \<open>None\<close> when they throw.

  All of these are functions: within one runtime the same request, and the same command
  on the same bytes, has the same outcome.
\<close>

record runtime =
  build_arch :: string
  build_os :: string
  cachedir :: string
  inheritedKeys :: "string list"
  fmtNumber :: "string \<Rightarrow> string"
  fetch :: "http_method \<Rightarrow> string \<Rightarrow> response option"
  fileCommand :: "path \<Rightarrow> byte list \<Rightarrow> string option"
  bzcat :: "byte list \<Rightarrow> bool \<times> byte list"
  tar :: "tarMode \<Rightarrow> byte list \<Rightarrow> (path \<times> node) list option"
  makeTempFile :: path
  unzip :: "byte list \<Rightarrow> (path \<times> node) list option"
  hdiutilAttach :: "byte list \<Rightarrow> string"
  volumeEntries :: "path \<Rightarrow> string list option"
  copyDir :: "path \<Rightarrow> path \<Rightarrow> (path \<times> node) list"
  hdiutilDetach :: "path \<Rightarrow> bool"

text \<open>
  What one run changes and what it leaves as a trace: the files, the requests sent, and
  the calls of the progress callback with their two arguments.
\<close>

record world =
  files :: fs
  requests :: "(http_method \<times> string) list"
  progress :: "(nat \<times> jsnum) list"

subsection \<open>URL resolution\<close>

text \<open>\<open>downloadURL\<close>.\<close>

definition downloadURL :: "runtime \<Rightarrow> product \<Rightarrow> platform \<Rightarrow> string \<Rightarrow> string \<Rightarrow> string" where
  "downloadURL rt product platform host revision =
     (if product = Firefox \<and> platform = LinuxArm64 then
        ''https://download.mozilla.org/?product=firefox-nightly-latest-ssl&os=linux64-aarch64&lang=en-US&_gl=1*se5055*_ga*NDg5MjU3NzYxLjE3MzQ2OTg0MTQ.*_ga_MQ7767QQQW*czE3NDg3NzM0MTUkbzIkZzEkdDE3NDg3NzM4NDQkajQ3JGwwJGgw''
      else if product = Firefox \<and> platform = Linux then
        ''https://download.mozilla.org/?product=firefox-nightly-latest-ssl&os=linux64&lang=en-US&_gl=1*1lx0kac*_ga*NDg5MjU3NzYxLjE3MzQ2OTg0MTQ.*_ga_MQ7767QQQW*czE3NDg3NzM0MTUkbzIkZzEkdDE3NDg3NzM4NDQkajQ3JGwwJGgw''
      else sprintf (fmtNumber rt) (downloadURLs product platform)
             [host, revision, archiveName product platform revision])"

subsection \<open>The class BrowserFetcher: state and revision info\<close>

text \<open>The private fields \<open>_product\<close>, \<open>_downloadsFolder\<close>, \<open>_downloadHost\<close>, \<open>_platform\<close>.\<close>

record fetcher =
  f_product :: product
  f_downloadsFolder :: string
  f_downloadHost :: string
  f_platform :: platform

text \<open>The interface \<open>BrowserFetcherRevisionInfo\<close>.\<close>

record revisionInfo =
  ri_folderPath :: string
  ri_executablePath :: string
  ri_url :: string
  ri_local :: bool
  ri_revision :: string
  ri_product :: string

text \<open>\<open>_getFolderPath\<close>.\<close>

definition getFolderPath :: "fetcher \<Rightarrow> string \<Rightarrow> path" where
  "getFolderPath f revision =
     pathJoin [f_downloadsFolder f, folderName (f_platform f) revision]"

text \<open>
  The executable path computed inside \<open>revisionInfo\<close>. Its two \<open>throw\<close> branches need
  a platform or product outside the union types.
\<close>

fun executablePathOf :: "product \<Rightarrow> platform \<Rightarrow> string \<Rightarrow> path \<Rightarrow> path" where
  "executablePathOf Chrome Mac revision folderPath =
     pathJoin [folderPath, archiveName Chrome Mac revision,
               ''Chromium.app'', ''Contents'', ''MacOS'', ''Chromium'']"
| "executablePathOf Chrome Linux revision folderPath =
     pathJoin [folderPath, archiveName Chrome Linux revision, ''chrome'']"
| "executablePathOf Chrome LinuxArm64 revision folderPath =
     pathJoin [folderPath, archiveName Chrome LinuxArm64 revision, ''chrome'']"
| "executablePathOf Chrome Win32 revision folderPath =
     pathJoin [folderPath, archiveName Chrome Win32 revision, ''chrome.exe'']"
| "executablePathOf Chrome Win64 revision folderPath =
     pathJoin [folderPath, archiveName Chrome Win64 revision, ''chrome.exe'']"
| "executablePathOf Firefox Mac revision folderPath =
     pathJoin [folderPath, ''Firefox Nightly.app'', ''Contents'', ''MacOS'', ''firefox'']"
| "executablePathOf Firefox Linux revision folderPath =
     pathJoin [folderPath, ''firefox'', ''firefox'']"
| "executablePathOf Firefox LinuxArm64 revision folderPath =
     pathJoin [folderPath, ''firefox'', ''firefox'']"
| "executablePathOf Firefox Win32 revision folderPath =
     pathJoin [folderPath, ''firefox'', ''firefox.exe'']"
| "executablePathOf Firefox Win64 revision folderPath =
     pathJoin [folderPath, ''firefox'', ''firefox.exe'']"

text \<open>\<open>revisionInfo\<close>; \<open>local\<close> is read from the file system at the time of the call.\<close>

definition revisionInfo :: "runtime \<Rightarrow> fetcher \<Rightarrow> string \<Rightarrow> fs \<Rightarrow> revisionInfo" where
  "revisionInfo rt f revision fs =
     (let folderPath = getFolderPath f revision
      in \<lparr>ri_folderPath = folderPath,
          ri_executablePath = executablePathOf (f_product f) (f_platform f) revision folderPath,
          ri_url = downloadURL rt (f_product f) (f_platform f) (f_downloadHost f) revision,
          ri_local = exists fs folderPath,
          ri_revision = revision,
          ri_product = productName (f_product f)\<rparr>)"

subsection \<open>downloadFile\<close>

text \<open>
  The \<open>for await\<close> loop over the body: for each chunk the byte count grows by the
  chunk's length, the callback is called with the count and the total, and the chunk
  is written.
\<close>

fun streamBody :: "path \<Rightarrow> jsnum \<Rightarrow> nat \<Rightarrow> byte list list \<Rightarrow> world \<Rightarrow> world" where
  "streamBody destinationPath totalBytes downloadedBytes [] w = w"
| "streamBody destinationPath totalBytes downloadedBytes (chunk # rest) w =
     streamBody destinationPath totalBytes (downloadedBytes + length chunk) rest
       (w\<lparr>progress := progress w @ [(downloadedBytes + length chunk, totalBytes)],
          files := appendFile destinationPath chunk (files w)\<rparr>)"

definition downloadFile :: "runtime \<Rightarrow> string \<Rightarrow> path \<Rightarrow> world \<Rightarrow> (error + unit) \<times> world" where
  "downloadFile rt url destinationPath w =
     (let w1 = w\<lparr>requests := requests w @ [(GET, url)]\<rparr> in
      case fetch rt GET url of
        None \<Rightarrow> (Inl NetworkError, w1)
      | Some response \<Rightarrow>
          if status response \<noteq> 200 then (Inl (DownloadFailed (status response) url), w1)
          else
            (let totalBytes =
                   parseInt (case headerGet response ''content-length'' of
                               None \<Rightarrow> [] | Some v \<Rightarrow> v)
             in case createFile destinationPath (files w1) of
                  Inl e \<Rightarrow> (Inl e, w1)
                | Inr fs1 \<Rightarrow>
                    (let w2 = streamBody destinationPath totalBytes 0 (body response)
                                (w1\<lparr>files := fs1\<rparr>)
                     in if bodyError response then (Inl NetworkError, w2)
                        else (Inr (), w2))))"

subsection \<open>detectAndRenameArchive\<close>

text \<open>
  The 20-byte buffer after \<open>file.read\<close>: the first bytes of the file, the rest still
  zero.
\<close>

definition readHeader :: "byte list \<Rightarrow> byte list" where
  "readHeader content = take 20 content @ replicate (20 - length content) 0"

text \<open>\<open>archivePath.replace(/\.tar\.bz2$/, ext)\<close>.\<close>

definition replaceTarBz2 :: "string \<Rightarrow> string \<Rightarrow> string" where
  "replaceTarBz2 archivePath ext =
     (if endsWith archivePath ''.tar.bz2''
      then take (length archivePath - 8) archivePath @ ext
      else archivePath)"

text \<open>\<open>await Deno.rename(archivePath, newPath); return newPath;\<close>\<close>

definition renameTo :: "path \<Rightarrow> path \<Rightarrow> fs \<Rightarrow> (error + path) \<times> fs" where
  "renameTo archivePath newPath fs =
     (case rename archivePath newPath fs of
        Inl e \<Rightarrow> (Inl e, fs)
      | Inr fs1 \<Rightarrow> (Inr newPath, fs1))"

text \<open>
  The same two statements inside the \<open>try\<close> around the \<open>file\<close> command: a failing
  rename is caught there, and the function goes on to return the original path.
\<close>

definition renameToCaught :: "path \<Rightarrow> path \<Rightarrow> fs \<Rightarrow> (error + path) \<times> fs" where
  "renameToCaught archivePath newPath fs =
     (case rename archivePath newPath fs of
        Inl e \<Rightarrow> (Inr archivePath, fs)
      | Inr fs1 \<Rightarrow> (Inr newPath, fs1))"

definition detectAndRenameArchive :: "runtime \<Rightarrow> path \<Rightarrow> fs \<Rightarrow> (error + path) \<times> fs" where
  "detectAndRenameArchive rt archivePath fs =
     (case map_of fs archivePath of
        None \<Rightarrow> (Inl (NotFound archivePath), fs)
      | Some Dir \<Rightarrow> (Inl (IsADirectory archivePath), fs)
      | Some (File content) \<Rightarrow>
          (let buffer = readHeader content in
           if buffer ! 0 = 0xfd \<and> buffer ! 1 = 0x37 \<and> buffer ! 2 = 0x7a \<and>
              buffer ! 3 = 0x58 \<and> buffer ! 4 = 0x5a \<and> buffer ! 5 = 0x00
           then renameTo archivePath (replaceTarBz2 archivePath ''.tar.xz'') fs
           else if buffer ! 0 = 0x1f \<and> buffer ! 1 = 0x8b
           then renameTo archivePath (replaceTarBz2 archivePath ''.tar.gz'') fs
           else if buffer ! 0 = 0x42 \<and> buffer ! 1 = 0x5a
           then (Inr archivePath, fs)
           else if buffer ! 0 = 0x50 \<and> buffer ! 1 = 0x4b
           then renameTo archivePath (replaceTarBz2 archivePath ''.zip'') fs
           else
             (case fileCommand rt archivePath content of
                None \<Rightarrow> (Inr archivePath, fs)
              | Some output \<Rightarrow>
                  if includesStr output ''gzip''
                  then renameToCaught archivePath (replaceTarBz2 archivePath ''.tar.gz'') fs
                  else if includesStr output ''bzip2''
                  then (Inr archivePath, fs)
                  else if includesStr output ''Zip''
                  then renameToCaught archivePath (replaceTarBz2 archivePath ''.zip'') fs
                  else (Inr archivePath, fs))))"

subsection \<open>install and the extractors\<close>

text \<open>Writing extracted entries below the target folder.\<close>

definition addEntries :: "path \<Rightarrow> (path \<times> node) list \<Rightarrow> fs \<Rightarrow> fs" where
  "addEntries folderPath entries fs =
     foldl (\<lambda>acc (rel, n). put (pathJoin [folderPath, rel]) n acc) fs entries"

definition fileContent :: "fs \<Rightarrow> path \<Rightarrow> byte list option" where
  "fileContent fs p = (case map_of fs p of Some (File c) \<Rightarrow> Some c | _ \<Rightarrow> None)"

text \<open>
  Modelled from the spec: the vendored zip module (\<open>readZip\<close>, \<open>unzip\<close>) is not among the
  sources; by the specification it opens the archive as a zip container and extracts all
  entries, preserving relative paths, into the destination folder. \<open>extractZip\<close> calls
  it: the entries are those the runtime's \<open>unzip\<close> gives, and the destination folder
  exists afterwards.
\<close>

definition extractZip :: "runtime \<Rightarrow> path \<Rightarrow> path \<Rightarrow> fs \<Rightarrow> (error + unit) \<times> fs" where
  "extractZip rt zipPath folderPath fs =
     (case fileContent fs zipPath of
        None \<Rightarrow> (Inl (NotFound zipPath), fs)
      | Some content \<Rightarrow>
          (case unzip rt content of
             None \<Rightarrow> (Inl (ExtractionFailed ''unzip''), fs)
           | Some entries \<Rightarrow>
               (case mkdir folderPath fs of
                  Inl e \<Rightarrow> (Inl e, fs)
                | Inr fs1 \<Rightarrow> (Inr (), addEntries folderPath entries fs1))))"

text \<open>
  \<open>extractTarBz2\<close>: the folder is made, \<open>bzcat\<close> writes the decompressed archive to a
  temporary file (which is left behind), and \<open>tar\<close> unpacks that file. \<open>bzcat\<close> on a
  missing file exits with a failure and no output.
\<close>

definition extractTarBz2 :: "runtime \<Rightarrow> path \<Rightarrow> path \<Rightarrow> fs \<Rightarrow> (error + unit) \<times> fs" where
  "extractTarBz2 rt tarPath folderPath fs =
     (case mkdir folderPath fs of
        Inl e \<Rightarrow> (Inl e, fs)
      | Inr fs1 \<Rightarrow>
          (let (success, out) = (case fileContent fs1 tarPath of
                                   None \<Rightarrow> (False, [])
                                 | Some content \<Rightarrow> bzcat rt content);
               tmp = makeTempFile rt
           in case createFile tmp fs1 of
                Inl e \<Rightarrow> (Inl e, fs1)
              | Inr fs2 \<Rightarrow>
                  (let fs3 = appendFile tmp out fs2 in
                   if \<not> success then (Inl (ExtractionFailed ''failed bzcat''), fs3)
                   else (case tar rt TarPlain out of
                           None \<Rightarrow> (Inl (ExtractionFailed ''failed untar''), fs3)
                         | Some entries \<Rightarrow> (Inr (), addEntries folderPath entries fs3)))))"

text \<open>
  \<open>extractTarGz\<close> and \<open>extractTarXz\<close> differ in the flag given to \<open>tar\<close>. On a missing
  archive \<open>tar\<close> exits with a failure.
\<close>

definition untarInto :: "runtime \<Rightarrow> tarMode \<Rightarrow> path \<Rightarrow> path \<Rightarrow> fs \<Rightarrow> (error + unit) \<times> fs" where
  "untarInto rt mode tarPath folderPath fs =
     (case mkdir folderPath fs of
        Inl e \<Rightarrow> (Inl e, fs)
      | Inr fs1 \<Rightarrow>
          (case (case fileContent fs1 tarPath of
                   None \<Rightarrow> None
                 | Some content \<Rightarrow> tar rt mode content) of
             None \<Rightarrow> (Inl (ExtractionFailed ''failed untar''), fs1)
           | Some entries \<Rightarrow> (Inr (), addEntries folderPath entries fs1)))"

definition extractTarGz :: "runtime \<Rightarrow> path \<Rightarrow> path \<Rightarrow> fs \<Rightarrow> (error + unit) \<times> fs" where
  "extractTarGz rt tarPath folderPath fs = untarInto rt TarGzip tarPath folderPath fs"

definition extractTarXz :: "runtime \<Rightarrow> path \<Rightarrow> path \<Rightarrow> fs \<Rightarrow> (error + unit) \<times> fs" where
  "extractTarXz rt tarPath folderPath fs = untarInto rt TarXz tarPath folderPath fs"

text \<open>
  \<open>installDMG\<close>. The regular expression \<open>/\/Volumes\/(.*)/m\<close> finds the first
  \<open>/Volumes/\<close> and takes the rest of its line.
\<close>

definition lineTerminator :: "char \<Rightarrow> bool" where
  "lineTerminator c \<longleftrightarrow> c = CHR 0x0A \<or> c = CHR 0x0D"

fun findVolume :: "string \<Rightarrow> string option" where
  "findVolume [] = None"
| "findVolume (c # cs) =
     (if startsWith (c # cs) ''/Volumes/''
      then Some (takeWhile (\<lambda>x. \<not> lineTerminator x) (c # cs))
      else findVolume cs)"

text \<open>The \<open>finally\<close> block of \<open>installDMG\<close>: a failed detach replaces the outcome.\<close>

definition detachAfter :: "runtime \<Rightarrow> path \<Rightarrow> (error + unit) \<times> fs \<Rightarrow> (error + unit) \<times> fs" where
  "detachAfter rt mountPath r =
     (if hdiutilDetach rt mountPath then r
      else (Inl (ExtractionFailed ''unmounting failed''), snd r))"

definition installDMG :: "runtime \<Rightarrow> path \<Rightarrow> path \<Rightarrow> fs \<Rightarrow> (error + unit) \<times> fs" where
  "installDMG rt dmgPath folderPath fs =
     (let stdout = (case fileContent fs dmgPath of
                      None \<Rightarrow> []
                    | Some content \<Rightarrow> hdiutilAttach rt content)
      in case findVolume stdout of
           None \<Rightarrow> (Inl (ExtractionFailed ''Could not find volume path''), fs)
         | Some mountPath \<Rightarrow>
             detachAfter rt mountPath
               (case volumeEntries rt mountPath of
                  None \<Rightarrow> (Inl (NotFound mountPath), fs)
                | Some names \<Rightarrow>
                    (case filter (\<lambda>n. endsWith n ''.app'') names of
                       [] \<Rightarrow> (Inl (ExtractionFailed ''Cannot find app''), fs)
                     | appName # others \<Rightarrow>
                         (Inr (), addEntries folderPath
                                    (copyDir rt (pathJoin [mountPath, appName]) folderPath) fs))))"

text \<open>\<open>install\<close>: the dispatch on the extension of the archive path.\<close>

definition install :: "runtime \<Rightarrow> path \<Rightarrow> path \<Rightarrow> fs \<Rightarrow> (error + unit) \<times> fs" where
  "install rt archivePath folderPath fs =
     (if endsWith archivePath ''.zip'' then extractZip rt archivePath folderPath fs
      else if endsWith archivePath ''.tar.bz2'' then extractTarBz2 rt archivePath folderPath fs
      else if endsWith archivePath ''.tar.gz'' then extractTarGz rt archivePath folderPath fs
      else if endsWith archivePath ''.tar.xz'' then extractTarXz rt archivePath folderPath fs
      else if endsWith archivePath ''.dmg'' then
        (case mkdir folderPath fs of
           Inl e \<Rightarrow> (Inl e, fs)
         | Inr fs1 \<Rightarrow> installDMG rt archivePath folderPath fs1)
      else (Inl (UnsupportedArchiveFormat archivePath), fs))"

subsection \<open>The file name announced by the server\<close>

text \<open>
  \<open>contentDisposition.match(/filename[^;=\n]*=((['"]).*?\2|[^;\n]*)/)\<close>, group 1.
  At the leftmost \<open>filename\<close> whose following run of characters other than \<open>;\<close>, \<open>=\<close>
  and newline ends at an \<open>=\<close>, the group is a quoted text (from a quote to the next
  same quote on the line) or else the run of characters up to \<open>;\<close> or newline.
\<close>

definition quotedText :: "string \<Rightarrow> string option" where
  "quotedText r =
     (case r of
        [] \<Rightarrow> None
      | q # cs \<Rightarrow>
          if q = CHR 0x27 \<or> q = CHR 0x22 then
            (let inner = takeWhile (\<lambda>c. c \<noteq> q) cs
             in if length inner < length cs \<and> \<not> list_ex lineTerminator inner
                then Some (q # inner @ [q]) else None)
          else None)"

definition filenameGroup :: "string \<Rightarrow> string" where
  "filenameGroup r =
     (case quotedText r of
        Some g \<Rightarrow> g
      | None \<Rightarrow> takeWhile (\<lambda>c. c \<noteq> CHR '';'' \<and> c \<noteq> CHR 0x0A) r)"

definition filenameAt :: "string \<Rightarrow> string option" where
  "filenameAt s =
     (if startsWith s ''filename'' then
        (case dropWhile (\<lambda>c. c \<noteq> CHR '';'' \<and> c \<noteq> CHR ''='' \<and> c \<noteq> CHR 0x0A) (drop 8 s) of
           [] \<Rightarrow> None
         | c # r \<Rightarrow> if c = CHR ''='' then Some (filenameGroup r) else None)
      else None)"

fun matchFilename :: "string \<Rightarrow> string option" where
  "matchFilename [] = None"
| "matchFilename (c # cs) =
     (case filenameAt (c # cs) of
        Some g \<Rightarrow> Some g
      | None \<Rightarrow> matchFilename cs)"

text \<open>
  \<open>actualFileName\<close> after the header has been read: \<open>null\<close> unless the header is
  present and non-empty and group 1 is non-empty; then group 1 without its quotes.
\<close>

definition actualFileName :: "string option \<Rightarrow> string option" where
  "actualFileName contentDisposition =
     (case contentDisposition of
        None \<Rightarrow> None
      | Some h \<Rightarrow>
          (case matchFilename h of
             None \<Rightarrow> None
           | Some g \<Rightarrow>
               if g \<noteq> [] then Some (filter (\<lambda>c. c \<noteq> CHR 0x27 \<and> c \<noteq> CHR 0x22) g)
               else None))"

definition firefoxLinux :: "fetcher \<Rightarrow> bool" where
  "firefoxLinux f \<longleftrightarrow>
     f_product f = Firefox \<and> (f_platform f = Linux \<or> f_platform f = LinuxArm64)"

text \<open>
  The first part of \<open>download\<close>: the archive's file name. For Firefox on the two Linux
  platforms a HEAD request is sent and the name the server announces is preferred;
  otherwise the name is the last segment of the URL.
\<close>

definition archiveFileName ::
  "runtime \<Rightarrow> fetcher \<Rightarrow> string \<Rightarrow> string \<Rightarrow> world \<Rightarrow> (error + string) \<times> world" where
  "archiveFileName rt f url revision w =
     (if firefoxLinux f then
        (let arch = (if f_platform f = LinuxArm64 then ''aarch64'' else ''x86_64'');
             fileName = ''firefox-'' @ revision @ ''.en-US.linux-'' @ arch @ ''.tar.bz2'';
             w1 = w\<lparr>requests := requests w @ [(HEAD, url)]\<rparr>
         in case fetch rt HEAD url of
              None \<Rightarrow> (Inl NetworkError, w1)
            | Some response \<Rightarrow>
                (case actualFileName (headerGet response ''content-disposition'') of
                   None \<Rightarrow> (Inr fileName, w1)
                 | Some n \<Rightarrow> (Inr (if n \<noteq> [] then n else fileName), w1)))
      else (Inr (last (split CHR ''/'' url)), w))"

subsection \<open>canDownload\<close>

text \<open>\<open>canDownload\<close>: a HEAD request to the download URL; true exactly for status 200.\<close>

definition canDownload :: "runtime \<Rightarrow> fetcher \<Rightarrow> string \<Rightarrow> world \<Rightarrow> (error + bool) \<times> world" where
  "canDownload rt f revision w =
     (let url = downloadURL rt (f_product f) (f_platform f) (f_downloadHost f) revision;
          w1 = w\<lparr>requests := requests w @ [(HEAD, url)]\<rparr>
      in case fetch rt HEAD url of
           None \<Rightarrow> (Inl NetworkError, w1)
         | Some req \<Rightarrow> (Inr (status req = 200), w1))"

subsection \<open>download\<close>

text \<open>The body of the \<open>try\<close> block: download, for Firefox on Linux sniff and rename, install.\<close>

definition downloadAndInstall ::
  "runtime \<Rightarrow> fetcher \<Rightarrow> string \<Rightarrow> path \<Rightarrow> path \<Rightarrow> world \<Rightarrow> (error + unit) \<times> world" where
  "downloadAndInstall rt f url archivePath outputPath w =
     (case downloadFile rt url archivePath w of
        (Inl e, w1) \<Rightarrow> (Inl e, w1)
      | (Inr u, w1) \<Rightarrow>
          if firefoxLinux f then
            (case detectAndRenameArchive rt archivePath (files w1) of
               (Inl e, fs2) \<Rightarrow> (Inl e, w1\<lparr>files := fs2\<rparr>)
             | (Inr actualArchivePath, fs2) \<Rightarrow>
                 (case install rt actualArchivePath outputPath fs2 of
                    (r, fs3) \<Rightarrow> (r, w1\<lparr>files := fs3\<rparr>)))
          else
            (case install rt archivePath outputPath (files w1) of
               (r, fs3) \<Rightarrow> (r, w1\<lparr>files := fs3\<rparr>)))"

text \<open>The \<open>finally\<close> block.\<close>

definition cleanup :: "path \<Rightarrow> fs \<Rightarrow> fs" where
  "cleanup archivePath fs =
     (if exists fs archivePath then removeRecursive archivePath fs else fs)"

text \<open>
  The statements after the \<open>try\<close>: the executable is made executable except on
  Windows. (\<open>macOSMakeChromiumHelpersExecutable\<close> changes permission bits only and
  catches every error, so it leaves this model's state as it is.)
\<close>

definition markExecutable ::
  "runtime \<Rightarrow> fetcher \<Rightarrow> string \<Rightarrow> world \<Rightarrow> (error + revisionInfo) \<times> world" where
  "markExecutable rt f revision w =
     (let info = revisionInfo rt f revision (files w) in
      if build_os rt \<noteq> ''windows'' then
        (case chmod (ri_executablePath info) (files w) of
           Inl e \<Rightarrow> (Inl e, w)
         | Inr fs1 \<Rightarrow> (Inr info, w\<lparr>files := fs1\<rparr>))
      else (Inr info, w))"

definition download ::
  "runtime \<Rightarrow> fetcher \<Rightarrow> string \<Rightarrow> world \<Rightarrow> (error + revisionInfo) \<times> world" where
  "download rt f revision w =
     (let url = downloadURL rt (f_product f) (f_platform f) (f_downloadHost f) revision in
      case archiveFileName rt f url revision w of
        (Inl e, w1) \<Rightarrow> (Inl e, w1)
      | (Inr fileName, w1) \<Rightarrow>
          (let archivePath = pathJoin [f_downloadsFolder f, fileName];
               outputPath = getFolderPath f revision
           in if exists (files w1) outputPath
              then (Inr (revisionInfo rt f revision (files w1)), w1)
              else
                (case (if \<not> exists (files w1) (f_downloadsFolder f)
                       then mkdir (f_downloadsFolder f) (files w1)
                       else Inr (files w1)) of
                   Inl e \<Rightarrow> (Inl e, w1)
                 | Inr fs2 \<Rightarrow>
                     (let w2 = w1\<lparr>files := fs2\<rparr> in
                      if build_arch rt = ''arm64'' \<and> f_product f = Chrome
                      then (Inl UnsupportedArchitectureCombination, w2)
                      else
                        (case downloadAndInstall rt f url archivePath outputPath w2 of
                           (r, w3) \<Rightarrow>
                             (let w4 = w3\<lparr>files := cleanup archivePath (files w3)\<rparr>
                              in case r of
                                   Inl e \<Rightarrow> (Inl e, w4)
                                 | Inr u \<Rightarrow> markExecutable rt f revision w4))))))"

subsection \<open>localRevisions and remove\<close>

definition localRevisions :: "runtime \<Rightarrow> fetcher \<Rightarrow> fs \<Rightarrow> error + string list" where
  "localRevisions rt f fs =
     (if \<not> exists fs (f_downloadsFolder f) then Inr []
      else (case readDir fs (f_downloadsFolder f) of
              Inl e \<Rightarrow> Inl e
            | Inr fileNames \<Rightarrow>
                Inr (map (\<lambda>entry. pn_revision (the entry))
                      (filter (\<lambda>entry. entry \<noteq> None \<and>
                                 pn_platform (the entry) = platformName (f_platform f))
                         (map (\<lambda>fileName. parseName (inheritedKeys rt) (f_product f) fileName)
                            fileNames)))))"

definition remove :: "fetcher \<Rightarrow> string \<Rightarrow> fs \<Rightarrow> error + fs" where
  "remove f revision fs =
     (let folderPath = getFolderPath f revision
      in if \<not> exists fs folderPath then Inl (NotInstalled revision)
         else Inr (removeRecursive folderPath fs))"

subsection \<open>The constructor\<close>

text \<open>The interface \<open>BrowserFetcherOptions\<close>; an absent option is \<open>None\<close>.\<close>

record options =
  o_platform :: "platform option"
  o_product :: "string option"
  o_path :: "string option"
  o_host :: "string option"

text \<open>\<open>x || d\<close> on an optional string: absent and empty are both falsy.\<close>

definition orElse :: "string option \<Rightarrow> string \<Rightarrow> string" where
  "orElse x d = (case x of None \<Rightarrow> d | Some s \<Rightarrow> if s = [] then d else s)"

text \<open>The constant \<open>browserConfig\<close>.\<close>

fun configHost :: "product \<Rightarrow> string" where
  "configHost Chrome = ''https://storage.googleapis.com''"
| "configHost Firefox =
     ''https://archive.mozilla.org/pub/firefox/nightly/latest-mozilla-central''"

fun configDestination :: "product \<Rightarrow> string" where
  "configDestination Chrome = ''chromium''"
| "configDestination Firefox = ''firefox''"

text \<open>\<open>setPlatform\<close>.\<close>

definition setPlatform :: "runtime \<Rightarrow> platform option \<Rightarrow> error + platform" where
  "setPlatform rt platformFromOptions =
     (case platformFromOptions of
        Some p \<Rightarrow> Inr p
      | None \<Rightarrow>
          if build_os rt = ''darwin'' then Inr Mac
          else if build_os rt = ''linux'' then Inr Linux
          else if build_os rt = ''windows''
            then Inr (if build_arch rt = ''x86_64'' then Win64 else Win32)
          else Inl (UnsupportedPlatform (build_os rt)))"

text \<open>
  The constructor. Its last assertion, that the table has a template for the product
  and platform, holds for every value of the two datatypes.
\<close>

definition newBrowserFetcher :: "runtime \<Rightarrow> options \<Rightarrow> error + fetcher" where
  "newBrowserFetcher rt opts =
     (let name = toLowerCase (orElse (o_product opts) ''chrome'') in
      case (if name = ''chrome'' then Some Chrome
            else if name = ''firefox'' then Some Firefox
            else None) of
        None \<Rightarrow> Inl (UnsupportedProduct (orElse (o_product opts) ''chrome''))
      | Some product \<Rightarrow>
          (case setPlatform rt (o_platform opts) of
             Inl e \<Rightarrow> Inl e
           | Inr platform \<Rightarrow>
               Inr \<lparr>f_product = product,
                    f_downloadsFolder =
                      orElse (o_path opts)
                        (pathJoin [cachedir rt, ''deno_puppeteer'', configDestination product]),
                    f_downloadHost = orElse (o_host opts) (configHost product),
                    f_platform = platform\<rparr>))"

subsection \<open>The format classification in the words of the specification\<close>

text \<open>
  The specification describes the sniffer as a function \<open>classify\<close> into five formats,
  decided in a fixed order: XZ, gzip, bzip2 and ZIP by magic bytes, then the output of
  the file-type command searched for "gzip", "bzip2", "Zip". These definitions follow
  that description; the theorems compare \<open>detectAndRenameArchive\<close> with them.
\<close>

datatype archiveFormat = FormatTarXz | FormatTarGz | FormatTarBz2 | FormatZip | FormatUnknown

definition magicFormat :: "byte list \<Rightarrow> archiveFormat" where
  "magicFormat content =
     (let first = take 20 content @ replicate (20 - length content) 0 in
      if take 6 first = [0xFD, 0x37, 0x7A, 0x58, 0x5A, 0x00] then FormatTarXz
      else if take 2 first = [0x1F, 0x8B] then FormatTarGz
      else if take 2 first = [0x42, 0x5A] then FormatTarBz2
      else if take 2 first = [0x50, 0x4B] then FormatZip
      else FormatUnknown)"

definition fileCommandFormat :: "string option \<Rightarrow> archiveFormat" where
  "fileCommandFormat output =
     (case output of
        None \<Rightarrow> FormatUnknown
      | Some text \<Rightarrow>
          if includesStr text ''gzip'' then FormatTarGz
          else if includesStr text ''bzip2'' then FormatTarBz2
          else if includesStr text ''Zip'' then FormatZip
          else FormatUnknown)"

definition classify :: "runtime \<Rightarrow> path \<Rightarrow> byte list \<Rightarrow> archiveFormat" where
  "classify rt archivePath content =
     (if magicFormat content \<noteq> FormatUnknown then magicFormat content
      else fileCommandFormat (fileCommand rt archivePath content))"

text \<open>The extension each format goes with.\<close>

fun formatExtension :: "archiveFormat \<Rightarrow> string option" where
  "formatExtension FormatTarXz = Some ''.tar.xz''"
| "formatExtension FormatTarGz = Some ''.tar.gz''"
| "formatExtension FormatTarBz2 = Some ''.tar.bz2''"
| "formatExtension FormatZip = Some ''.zip''"
| "formatExtension FormatUnknown = None"

subsection \<open>A concrete runtime for the examples\<close>

text \<open>
  An x86-64 Linux host. Every HEAD request is answered without a content-disposition
  header; every GET request is answered with status 200, no content-length header and
  an XZ archive in two chunks. \<open>tar -xJf\<close> unpacks it to a Firefox tree, \<open>unzip\<close> gives a
  Chromium tree, and the other commands fail.
\<close>

definition xzArchive :: "byte list list" where
  "xzArchive = [[0xFD, 0x37, 0x7A, 0x58, 0x5A, 0x00, 0x00, 0x04], [0x01, 0x02, 0x03]]"

definition exampleRuntime :: runtime where
  "exampleRuntime =
     \<lparr>build_arch = ''x86_64'', build_os = ''linux'', cachedir = ''/cache'',
      inheritedKeys = [''constructor'', ''toString'', ''valueOf'', ''hasOwnProperty''],
      fmtNumber = (\<lambda>s. s),
      fetch = (\<lambda>m u. case m of
                 HEAD \<Rightarrow> Some \<lparr>status = 200, headers = [], body = [], bodyError = False\<rparr>
               | GET \<Rightarrow> Some \<lparr>status = 200, headers = [], body = xzArchive,
                              bodyError = False\<rparr>),
      fileCommand = (\<lambda>p c. None),
      bzcat = (\<lambda>c. (False, [])),
      tar = (\<lambda>m c. case m of
               TarXz \<Rightarrow> Some [(''firefox'', Dir), (''firefox/firefox'', File [0x7F])]
             | _ \<Rightarrow> None),
      makeTempFile = ''/tmp/deno-tmp'',
      unzip = (\<lambda>c. Some [(''chrome-linux'', Dir), (''chrome-linux/chrome'', File [0x7F])]),
      hdiutilAttach = (\<lambda>c. []),
      volumeEntries = (\<lambda>p. None),
      copyDir = (\<lambda>a b. []),
      hdiutilDetach = (\<lambda>p. True)\<rparr>"

text \<open>
  The same host on an ARM64 machine: there \<open>Deno.build.arch\<close> is \<open>aarch64\<close> (the
  runtime reports \<open>x86_64\<close> or \<open>aarch64\<close>, never \<open>arm64\<close>, which is why the source has
  to cast it to \<open>string\<close> before comparing it with \<open>"arm64"\<close>).
\<close>

definition aarch64Runtime :: runtime where
  "aarch64Runtime = exampleRuntime\<lparr>build_arch := ''aarch64''\<rparr>"

definition firefoxFetcher :: fetcher where
  "firefoxFetcher =
     \<lparr>f_product = Firefox, f_downloadsFolder = ''/cache/deno_puppeteer/firefox'',
      f_downloadHost = configHost Firefox, f_platform = Linux\<rparr>"

definition chromeFetcher :: fetcher where
  "chromeFetcher =
     \<lparr>f_product = Chrome, f_downloadsFolder = ''/cache/deno_puppeteer/chromium'',
      f_downloadHost = configHost Chrome, f_platform = Linux\<rparr>"

definition emptyWorld :: world where
  "emptyWorld = \<lparr>files = [], requests = [], progress = []\<rparr>"

text \<open>A disk on which Firefox revision 141.0a1 is already installed.\<close>

definition installedWorld :: world where
  "installedWorld =
     \<lparr>files = [(''/cache/deno_puppeteer/firefox'', Dir),
               (''/cache/deno_puppeteer/firefox/linux-141.0a1'', Dir),
               (''/cache/deno_puppeteer/firefox/linux-141.0a1/firefox'', Dir),
               (''/cache/deno_puppeteer/firefox/linux-141.0a1/firefox/firefox'', File [0x7F])],
      requests = [], progress = []\<rparr>"

text \<open>The example host with a \<open>tar\<close> that fails on every archive.\<close>

definition failingTarRuntime :: runtime where
  "failingTarRuntime = exampleRuntime\<lparr>tar := (\<lambda>m c. None)\<rparr>"

text \<open>
  The state the first download of Firefox 141.0a1 on the example host leaves behind,
  starting from an empty disk.
\<close>

definition downloadedWorld :: world where
  "downloadedWorld =
     \<lparr>files = [(''/cache/deno_puppeteer/firefox'', Dir),
               (''/cache/deno_puppeteer/firefox/firefox-141.0a1.en-US.linux-x86_64.tar.xz'',
                File (concat xzArchive)),
               (''/cache/deno_puppeteer/firefox/linux-141.0a1'', Dir),
               (''/cache/deno_puppeteer/firefox/linux-141.0a1/firefox'', Dir),
               (''/cache/deno_puppeteer/firefox/linux-141.0a1/firefox/firefox'', File [0x7F])],
      requests = [(HEAD, downloadURL exampleRuntime Firefox Linux [] []),
                  (GET, downloadURL exampleRuntime Firefox Linux [] [])],
      progress = [(8, NaN), (11, NaN)]\<rparr>"

text \<open>
  The example host with every extraction command working, each leaving a different
  entry: \<open>bzcat\<close> strips the first two bytes, \<open>tar\<close> writes the bytes it is given under a
  name that tells the flag, \<open>unzip\<close> writes them as \<open>from-zip\<close>, and the disk image mounts
  at \<open>/Volumes/Firefox Nightly\<close> with an application bundle that the copy brings over.
\<close>

definition extractingRuntime :: runtime where
  "extractingRuntime =
     exampleRuntime
       \<lparr>bzcat := (\<lambda>c. (True, drop 2 c)),
        tar := (\<lambda>m c. case m of
                  TarPlain \<Rightarrow> Some [(''from-tar'', File c)]
                | TarGzip \<Rightarrow> Some [(''from-tar-gzip'', File c)]
                | TarXz \<Rightarrow> Some [(''from-tar-xz'', File c)]),
        unzip := (\<lambda>c. Some [(''from-zip'', File c)]),
        hdiutilAttach := (\<lambda>c. ''/dev/disk4s1 Apple_HFS /Volumes/Firefox Nightly''),
        volumeEntries := (\<lambda>p. if p = ''/Volumes/Firefox Nightly''
                              then Some [''.background'', ''Firefox Nightly.app'']
                              else None),
        copyDir := (\<lambda>a b. if a = ''/Volumes/Firefox Nightly/Firefox Nightly.app''
                          then [(''Contents'', Dir)] else []),
        hdiutilDetach := (\<lambda>p. True)\<rparr>"

subsection \<open>Facts about splitting\<close>

lemma split_nonempty: "split sep s \<noteq> []"
  by (induction s) (auto split: list.splits)

lemma split_no_sep: "sep \<notin> set s \<Longrightarrow> split sep s = [s]"
  by (induction s) auto

lemma split_append_sep:
  "sep \<notin> set a \<Longrightarrow> split sep (a @ sep # b) = a # split sep b"
  by (induction a) auto

lemma split_with_sep: "sep \<in> set s \<Longrightarrow> 2 \<le> length (split sep s)"
proof (induction s)
  case Nil
  then show ?case by simp
next
  case (Cons c cs)
  show ?case
  proof (cases "c = sep")
    case True
    have "split sep cs \<noteq> []" by (rule split_nonempty)
    then have "1 \<le> length (split sep cs)" by (cases "split sep cs") auto
    with True show ?thesis by simp
  next
    case False
    with Cons.prems have "sep \<in> set cs" by simp
    then have "2 \<le> length (split sep cs)" by (rule Cons.IH)
    with False show ?thesis by (auto split: list.splits)
  qed
qed

lemma join_split: "joinWith sep (split sep s) = s"
proof (induction s)
  case Nil
  then show ?case by simp
next
  case (Cons c cs)
  show ?case
  proof (cases "c = sep")
    case True
    obtain x xs where "split sep cs = x # xs"
      using split_nonempty [of sep cs] by (cases "split sep cs") auto
    with True Cons.IH show ?thesis by simp
  next
    case False
    obtain x xs where sp: "split sep cs = x # xs"
      using split_nonempty [of sep cs] by (cases "split sep cs") auto
    with False Cons.IH show ?thesis by (cases xs) auto
  qed
qed


subsection \<open>Folder names: building and parsing\<close>

lemma split_platform_prefix:
  "CHR ''-'' \<notin> set pl \<Longrightarrow> split CHR ''-'' (pl @ ''-'' @ r) = pl # split CHR ''-'' r"
  using split_append_sep [of "CHR ''-''" pl r] by simp

lemma split_folderName:
  "split CHR ''-'' (folderName platform revision) =
     (case platform of
        LinuxArm64 \<Rightarrow> ''linux'' # ''arm64'' # split CHR ''-'' revision
      | _ \<Rightarrow> platformName platform # split CHR ''-'' revision)"
proof (cases platform)
  case LinuxArm64
  have "split CHR ''-'' (''linux'' @ ''-'' @ (''arm64'' @ ''-'' @ revision))
        = ''linux'' # split CHR ''-'' (''arm64'' @ ''-'' @ revision)"
    by (rule split_platform_prefix) simp
  also have "split CHR ''-'' (''arm64'' @ ''-'' @ revision) = ''arm64'' # split CHR ''-'' revision"
    by (rule split_platform_prefix) simp
  finally show ?thesis using LinuxArm64 by (simp add: folderName_def)
qed (simp_all add: folderName_def split_platform_prefix)

lemma hasDownloadURL_platformName: "hasDownloadURL inh product (platformName platform)"
  by (cases platform) (simp_all add: hasDownloadURL_def platformOfName_def)

lemma parseName_folderName_no_hyphen:
  assumes "CHR ''-'' \<notin> set revision"
  shows "parseName inh product (folderName platform revision) =
           Some \<lparr>pn_product = product, pn_platform = platformName platform,
                 pn_revision = revision\<rparr>"
proof -
  have sp: "split CHR ''-'' revision = [revision]"
    using assms by (rule split_no_sep)
  show ?thesis
    using hasDownloadURL_platformName [of inh product platform]
    by (cases platform) (simp_all add: parseName_def split_folderName sp)
qed

lemma parseName_folderName_hyphen:
  assumes "CHR ''-'' \<in> set revision"
  shows "parseName inh product (folderName platform revision) \<noteq>
           Some \<lparr>pn_product = product, pn_platform = platformName platform,
                 pn_revision = revision\<rparr>"
proof -
  have len: "2 \<le> length (split CHR ''-'' revision)"
    using assms by (rule split_with_sep)
  show ?thesis
    using len
    by (cases platform) (auto simp add: parseName_def split_folderName Let_def split: if_splits)
qed

lemma parseName_known_platform:
  assumes "parseName inh product name = Some e"
  shows "platformOfName (pn_platform e) \<noteq> None \<or> pn_platform e \<in> set inh"
  using assms
  by (auto simp add: parseName_def Let_def hasDownloadURL_def split: if_splits)

lemma parseName_name:
  assumes "parseName inh product name = Some e"
  shows "name = pn_platform e @ ''-'' @ pn_revision e"
proof -
  let ?sp = "split CHR ''-'' name"
  have j: "joinWith CHR ''-'' ?sp = name" by (rule join_split)
  consider (two) "length ?sp = 2" | (three) "length ?sp = 3" "?sp ! 0 = ''linux''" "?sp ! 1 = ''arm64''"
    using assms by (auto simp add: parseName_def Let_def split: if_splits)
  then show ?thesis
  proof cases
    case two
    then obtain a b where ab: "?sp = [a, b]"
      by (cases ?sp; cases "tl ?sp") auto
    with assms have "pn_platform e = a" "pn_revision e = b"
      by (auto simp add: parseName_def Let_def split: if_splits)
    with j ab show ?thesis by simp
  next
    case three
    then obtain c where abc: "?sp = [''linux'', ''arm64'', c]"
      by (cases ?sp; cases "tl ?sp"; cases "tl (tl ?sp)") auto
    with assms have "pn_platform e = ''linux-arm64''" "pn_revision e = c"
      by (auto simp add: parseName_def Let_def split: if_splits)
    with j abc show ?thesis by simp
  qed
qed


lemma platformOfName_Some: "platformOfName k = Some p \<Longrightarrow> k = platformName p"
  by (auto simp add: platformOfName_def split: if_splits)

lemma parseName_product:
  "parseName inh product name = Some e \<Longrightarrow> pn_product e = product"
  by (auto simp add: parseName_def Let_def split: if_splits option.splits)

text \<open>
  A successful parse whose platform is not an inherited property name reports a known
  platform, and the name is the folder name of that platform and the reported revision.
\<close>

lemma parseName_known:
  assumes "parseName inh product name = Some e" and "pn_platform e \<notin> set inh"
  shows "\<exists>p. name = folderName p (pn_revision e) \<and>
             e = \<lparr>pn_product = product, pn_platform = platformName p,
                   pn_revision = pn_revision e\<rparr>"
proof -
  from assms parseName_known_platform [OF assms(1)]
  obtain p where p: "platformOfName (pn_platform e) = Some p" by auto
  then have pl: "pn_platform e = platformName p" by (rule platformOfName_Some)
  from assms(1) have "name = pn_platform e @ ''-'' @ pn_revision e" by (rule parseName_name)
  with pl have n: "name = folderName p (pn_revision e)" by (simp add: folderName_def)
  from parseName_product [OF assms(1)] pl
  have "e = \<lparr>pn_product = product, pn_platform = platformName p,
              pn_revision = pn_revision e\<rparr>"
    by simp
  with n show ?thesis by blast
qed

text \<open>
  A name that is not a known platform, a hyphen and a revision, and not an inherited
  property name, a hyphen and a rest, is not parsed.
\<close>

lemma parseName_none:
  assumes "\<forall>p r. name \<noteq> folderName p r"
    and "\<forall>k r. k \<in> set inh \<longrightarrow> name \<noteq> k @ ''-'' @ r"
  shows "parseName inh product name = None"
proof (rule ccontr)
  assume "parseName inh product name \<noteq> None"
  then obtain e where e: "parseName inh product name = Some e" by auto
  then have n: "name = pn_platform e @ ''-'' @ pn_revision e" by (rule parseName_name)
  with assms(2) have "pn_platform e \<notin> set inh" by blast
  with e obtain p where "name = folderName p (pn_revision e)"
    using parseName_known by blast
  with assms(1) show False by blast
qed

text \<open>
  C3, as amended. Building the folder name \<open>{platform}-{revision}\<close> for any of the
  five platforms (the hyphenated \<open>linux-arm64\<close> included) and parsing it back recovers
  exactly the platform and the revision if and only if the revision contains no hyphen.
  Parsing returns none for every name that is not a known platform followed by a hyphen
  and a revision, and a successful parse reports a known platform and the revision that
  make up the name. Names that begin with a property name inherited from the runtime's
  object prototype and a hyphen are left out of the last two statements.
\<close>

theorem parseName_folderName_roundtrip:
  "(parseName inh product (folderName platform revision) =
      Some \<lparr>pn_product = product, pn_platform = platformName platform,
            pn_revision = revision\<rparr>
    \<longleftrightarrow> CHR ''-'' \<notin> set revision)
   \<and> ((\<forall>p r. name \<noteq> folderName p r) \<and>
      (\<forall>k r. k \<in> set inh \<longrightarrow> name \<noteq> k @ ''-'' @ r) \<longrightarrow>
        parseName inh product name = None)
   \<and> (parseName inh product name = Some e \<and> pn_platform e \<notin> set inh \<longrightarrow>
        (\<exists>p. name = folderName p (pn_revision e) \<and>
             e = \<lparr>pn_product = product, pn_platform = platformName p,
                   pn_revision = pn_revision e\<rparr>))"
  using parseName_folderName_no_hyphen [of revision inh product platform]
        parseName_folderName_hyphen [of revision inh product platform]
        parseName_none [of name inh product]
        parseName_known [of inh product name e]
  by blast

theorem parseName_folderName_roundtrip_witness:
  "CHR ''-'' \<notin> set ''141.0a1''
   \<and> parseName [''constructor''] Firefox (folderName LinuxArm64 ''141.0a1'') =
      Some \<lparr>pn_product = Firefox, pn_platform = ''linux-arm64'', pn_revision = ''141.0a1''\<rparr>
   \<and> (\<forall>p r. ''foo-arm64-7'' \<noteq> folderName p r)
   \<and> (\<forall>r. ''foo-arm64-7'' \<noteq> ''constructor'' @ ''-'' @ r)
   \<and> parseName [''constructor''] Firefox ''foo-arm64-7'' = None
   \<and> parseName [''constructor''] Firefox ''mac-75'' =
      Some \<lparr>pn_product = Firefox, pn_platform = ''mac'', pn_revision = ''75''\<rparr>
   \<and> ''mac'' \<notin> set [''constructor'']
   \<and> (\<exists>p. ''mac-75'' = folderName p ''75'')"
proof -
  let ?e = "\<lparr>pn_product = Firefox, pn_platform = ''mac'', pn_revision = ''75''\<rparr>"
  note t1 = parseName_folderName_roundtrip [where inh = "[''constructor'']"
      and product = Firefox and platform = LinuxArm64 and revision = "''141.0a1''"
      and name = "''foo-arm64-7''" and e = ?e]
  note t2 = parseName_folderName_roundtrip [where inh = "[''constructor'']"
      and product = Firefox and platform = LinuxArm64 and revision = "''141.0a1''"
      and name = "''mac-75''" and e = ?e]
  have h1: "CHR ''-'' \<notin> set ''141.0a1''" by simp
  have r1: "parseName [''constructor''] Firefox (folderName LinuxArm64 ''141.0a1'') =
      Some \<lparr>pn_product = Firefox, pn_platform = ''linux-arm64'', pn_revision = ''141.0a1''\<rparr>"
    using t1 [THEN conjunct1, THEN iffD2, OF h1] by simp
  have h2: "\<forall>p r. ''foo-arm64-7'' \<noteq> folderName p r"
  proof (intro allI)
    fix p r show "''foo-arm64-7'' \<noteq> folderName p r"
      by (cases p) (simp_all add: folderName_def)
  qed
  have h3: "\<forall>r. ''foo-arm64-7'' \<noteq> ''constructor'' @ ''-'' @ r" by simp
  then have h3': "\<forall>k r. k \<in> set [''constructor''] \<longrightarrow> ''foo-arm64-7'' \<noteq> k @ ''-'' @ r"
    by simp
  have r2: "parseName [''constructor''] Firefox ''foo-arm64-7'' = None"
    using t1 [THEN conjunct2, THEN conjunct1, rule_format, OF conjI [OF h2 h3']] .
  have h4: "parseName [''constructor''] Firefox ''mac-75'' = Some ?e"
    by code_simp
  have h5: "''mac'' \<notin> set [''constructor'']" by simp
  have r3: "\<exists>p. ''mac-75'' = folderName p ''75''"
    using t2 [THEN conjunct2, THEN conjunct2] h4 h5 by auto
  show ?thesis
    using h1 r1 h2 h3 r2 h4 h5 r3 by (intro conjI)
qed

text \<open>
  C3 as stated fails: a revision with a hyphen does not survive the round trip. The
  folder name \<open>linux-1-2\<close> of revision \<open>1-2\<close> is not parsed at all, and the folder name
  \<open>linux-arm64-5\<close> of revision \<open>arm64-5\<close> on \<open>linux\<close> is parsed as revision \<open>5\<close> on
  \<open>linux-arm64\<close>.
\<close>

theorem parseName_roundtrip_counterexample:
  "parseName [] Chrome (folderName Linux ''1-2'') = None
   \<and> parseName [] Chrome (folderName Linux ''arm64-5'') =
        Some \<lparr>pn_product = Chrome, pn_platform = ''linux-arm64'', pn_revision = ''5''\<rparr>"
  by (simp add: parseName_def folderName_def hasDownloadURL_def platformOfName_def)

text \<open>
  The lookup in the table also finds the property names that the table objects inherit:
  with \<open>constructor\<close> among them, the name \<open>constructor-1\<close> is parsed although
  \<open>constructor\<close> is not a platform.
\<close>

lemma parseName_inherited_key:
  "parseName [''constructor''] Chrome ''constructor-1'' =
     Some \<lparr>pn_product = Chrome, pn_platform = ''constructor'', pn_revision = ''1''\<rparr>
   \<and> platformOfName ''constructor'' = None"
  by (simp add: parseName_def hasDownloadURL_def platformOfName_def)

subsection \<open>URL resolution\<close>

lemma downloadURL_firefox_linux:
  "downloadURL rt Firefox Linux host revision = downloadURL rt' Firefox Linux host' revision'"
  "downloadURL rt Firefox LinuxArm64 host revision = downloadURL rt' Firefox LinuxArm64 host' revision'"
  by (simp_all add: downloadURL_def)

lemma downloadURL_template:
  "\<not> (product = Firefox \<and> (platform = Linux \<or> platform = LinuxArm64)) \<Longrightarrow>
   downloadURL rt product platform host revision =
     sprintf (fmtNumber rt) (downloadURLs product platform)
       [host, revision, archiveName product platform revision]"
  by (auto simp add: downloadURL_def)

lemma downloadURL_chrome:
  "downloadURL rt Chrome Linux host revision =
     host @ ''/chromium-browser-snapshots/Linux_x64/'' @ fmtNumber rt revision @ ''/'' @
     archiveName Chrome Linux revision @ ''.zip''"
  "downloadURL rt Chrome LinuxArm64 host revision =
     host @ ''/chromium-browser-snapshots/Linux_arm64/'' @ fmtNumber rt revision @ ''/'' @
     archiveName Chrome LinuxArm64 revision @ ''.zip''"
  "downloadURL rt Chrome Mac host revision =
     host @ ''/chromium-browser-snapshots/Mac/'' @ fmtNumber rt revision @ ''/'' @
     archiveName Chrome Mac revision @ ''.zip''"
  "downloadURL rt Chrome Win32 host revision =
     host @ ''/chromium-browser-snapshots/Win/'' @ fmtNumber rt revision @ ''/'' @
     archiveName Chrome Win32 revision @ ''.zip''"
  "downloadURL rt Chrome Win64 host revision =
     host @ ''/chromium-browser-snapshots/Win_x64/'' @ fmtNumber rt revision @ ''/'' @
     archiveName Chrome Win64 revision @ ''.zip''"
  by (simp_all add: downloadURL_def)

lemma downloadURL_firefox:
  "downloadURL rt Firefox Mac host revision =
     host @ ''/firefox-'' @ revision @ ''.en-US.'' @ archiveName Firefox Mac revision @ ''.dmg''"
  "downloadURL rt Firefox Win32 host revision =
     host @ ''/firefox-'' @ revision @ ''.en-US.'' @ archiveName Firefox Win32 revision @ ''.zip''"
  "downloadURL rt Firefox Win64 host revision =
     host @ ''/firefox-'' @ revision @ ''.en-US.'' @ archiveName Firefox Win64 revision @ ''.zip''"
  by (simp_all add: downloadURL_def)


text \<open>
  C6. For Firefox on \<open>linux\<close> and on \<open>linux-arm64\<close> the URL is a fixed endpoint of
  download.mozilla.org, the same for every host and every revision (and every runtime).
  For each other product and platform it is the template of that pair with host,
  revision and archive name substituted in this order; the remaining conjuncts write the
  substitution out for each of the eight pairs (the revision of a Chrome URL goes
  through the \<open>%d\<close> verb).
\<close>

theorem downloadURL_resolution:
  "downloadURL rt Firefox Linux host revision = downloadURL rt' Firefox Linux host' revision'
   \<and> downloadURL rt Firefox LinuxArm64 host revision =
       downloadURL rt' Firefox LinuxArm64 host' revision'
   \<and> startsWith (downloadURL rt Firefox Linux host revision)
         ''https://download.mozilla.org/?product=firefox-nightly-latest-ssl&os=linux64&''
   \<and> startsWith (downloadURL rt Firefox LinuxArm64 host revision)
         ''https://download.mozilla.org/?product=firefox-nightly-latest-ssl&os=linux64-aarch64&''
   \<and> (\<not> (product = Firefox \<and> (platform = Linux \<or> platform = LinuxArm64)) \<longrightarrow>
        downloadURL rt product platform host revision =
          sprintf (fmtNumber rt) (downloadURLs product platform)
            [host, revision, archiveName product platform revision])
   \<and> downloadURL rt Chrome Linux host revision =
       host @ ''/chromium-browser-snapshots/Linux_x64/'' @ fmtNumber rt revision @ ''/'' @
       archiveName Chrome Linux revision @ ''.zip''
   \<and> downloadURL rt Chrome LinuxArm64 host revision =
       host @ ''/chromium-browser-snapshots/Linux_arm64/'' @ fmtNumber rt revision @ ''/'' @
       archiveName Chrome LinuxArm64 revision @ ''.zip''
   \<and> downloadURL rt Chrome Mac host revision =
       host @ ''/chromium-browser-snapshots/Mac/'' @ fmtNumber rt revision @ ''/'' @
       archiveName Chrome Mac revision @ ''.zip''
   \<and> downloadURL rt Chrome Win32 host revision =
       host @ ''/chromium-browser-snapshots/Win/'' @ fmtNumber rt revision @ ''/'' @
       archiveName Chrome Win32 revision @ ''.zip''
   \<and> downloadURL rt Chrome Win64 host revision =
       host @ ''/chromium-browser-snapshots/Win_x64/'' @ fmtNumber rt revision @ ''/'' @
       archiveName Chrome Win64 revision @ ''.zip''
   \<and> downloadURL rt Firefox Mac host revision =
       host @ ''/firefox-'' @ revision @ ''.en-US.'' @ archiveName Firefox Mac revision @ ''.dmg''
   \<and> downloadURL rt Firefox Win32 host revision =
       host @ ''/firefox-'' @ revision @ ''.en-US.'' @ archiveName Firefox Win32 revision @ ''.zip''
   \<and> downloadURL rt Firefox Win64 host revision =
       host @ ''/firefox-'' @ revision @ ''.en-US.'' @ archiveName Firefox Win64 revision @ ''.zip''"
proof -
  have fixed: "startsWith (downloadURL rt Firefox Linux host revision)
         ''https://download.mozilla.org/?product=firefox-nightly-latest-ssl&os=linux64&''"
    "startsWith (downloadURL rt Firefox LinuxArm64 host revision)
         ''https://download.mozilla.org/?product=firefox-nightly-latest-ssl&os=linux64-aarch64&''"
    by (simp_all add: downloadURL_def startsWith_def)
  show ?thesis
    using fixed
      downloadURL_firefox_linux [of rt host revision rt' host' revision']
      downloadURL_template [of product platform rt host revision]
      downloadURL_chrome [of rt host revision]
      downloadURL_firefox [of rt host revision]
    by (intro conjI impI) assumption+
qed

theorem downloadURL_resolution_witness:
  "\<not> (Chrome = Firefox \<and> (Win64 = Linux \<or> Win64 = LinuxArm64))
   \<and> downloadURL exampleRuntime Chrome Win64 ''https://storage.googleapis.com'' ''1022525'' =
       ''https://storage.googleapis.com/chromium-browser-snapshots/Win_x64/1022525/chrome-win.zip''
   \<and> downloadURL exampleRuntime Firefox Mac ''https://h'' ''141.0a1'' =
       ''https://h/firefox-141.0a1.en-US.mac.dmg''"
proof -
  have hyp: "\<not> (Chrome = Firefox \<and> (Win64 = Linux \<or> Win64 = LinuxArm64))" by simp
  have value1: "sprintf (fmtNumber exampleRuntime) (downloadURLs Chrome Win64)
          [''https://storage.googleapis.com'', ''1022525'', archiveName Chrome Win64 ''1022525'']
        = ''https://storage.googleapis.com/chromium-browser-snapshots/Win_x64/1022525/chrome-win.zip''"
    by code_simp
  have value2: "''https://h'' @ ''/firefox-'' @ ''141.0a1'' @ ''.en-US.'' @
          archiveName Firefox Mac ''141.0a1'' @ ''.dmg'' = ''https://h/firefox-141.0a1.en-US.mac.dmg''"
    by simp
  show ?thesis
    using hyp value1 value2
      downloadURL_resolution [where rt = exampleRuntime and product = Chrome and platform = Win64
        and host = "''https://storage.googleapis.com''" and revision = "''1022525''"]
      downloadURL_resolution [where rt = exampleRuntime and host = "''https://h''"
        and revision = "''141.0a1''"]
    by simp
qed

subsection \<open>install\<close>

lemma endsWith_append: "endsWith s p \<longleftrightarrow> (\<exists>q. s = q @ p)"
proof
  assume "endsWith s p"
  then have "s = take (length s - length p) s @ p"
    by (metis append_take_drop_id endsWith_def)
  then show "\<exists>q. s = q @ p" ..
next
  assume "\<exists>q. s = q @ p"
  then show "endsWith s p" by (auto simp add: endsWith_def)
qed

lemma endsWith_exclusive:
  "endsWith s ''.zip'' \<Longrightarrow> \<not> endsWith s ''.tar.bz2''"
  "endsWith s ''.zip'' \<Longrightarrow> \<not> endsWith s ''.tar.gz''"
  "endsWith s ''.zip'' \<Longrightarrow> \<not> endsWith s ''.tar.xz''"
  "endsWith s ''.zip'' \<Longrightarrow> \<not> endsWith s ''.dmg''"
  "endsWith s ''.tar.bz2'' \<Longrightarrow> \<not> endsWith s ''.tar.gz''"
  "endsWith s ''.tar.bz2'' \<Longrightarrow> \<not> endsWith s ''.tar.xz''"
  "endsWith s ''.tar.bz2'' \<Longrightarrow> \<not> endsWith s ''.dmg''"
  "endsWith s ''.tar.gz'' \<Longrightarrow> \<not> endsWith s ''.tar.xz''"
  "endsWith s ''.tar.gz'' \<Longrightarrow> \<not> endsWith s ''.dmg''"
  "endsWith s ''.tar.xz'' \<Longrightarrow> \<not> endsWith s ''.dmg''"
  by (auto simp add: endsWith_append append_eq_append_conv2 append_eq_Cons_conv Cons_eq_append_conv)


lemma extractZip_not_unsupported:
  "fst (extractZip rt a d fs) \<noteq> Inl (UnsupportedArchiveFormat p)"
  by (simp add: extractZip_def mkdir_def split: option.split sum.split node.split)

lemma untarInto_not_unsupported:
  "fst (untarInto rt m a d fs) \<noteq> Inl (UnsupportedArchiveFormat p)"
  by (simp add: untarInto_def mkdir_def split: option.split sum.split node.split)

lemma extractTarBz2_not_unsupported:
  "fst (extractTarBz2 rt a d fs) \<noteq> Inl (UnsupportedArchiveFormat p)"
  by (simp add: extractTarBz2_def mkdir_def createFile_def Let_def
           split: option.split sum.split node.split prod.split)

lemma installDMG_not_unsupported:
  "fst (installDMG rt a d fs) \<noteq> Inl (UnsupportedArchiveFormat p)"
  by (simp add: installDMG_def detachAfter_def Let_def
           split: option.split list.split)

lemma dmg_branch_not_unsupported:
  "fst (case mkdir d fs of Inl e \<Rightarrow> (Inl e, fs) | Inr fs1 \<Rightarrow> installDMG rt a d fs1)
     \<noteq> Inl (UnsupportedArchiveFormat p)"
  by (simp add: mkdir_def installDMG_not_unsupported split: option.split node.split)

lemma mkdir_fileContent:
  assumes "mkdir d fs = Inr fs1" and "fileContent fs p = Some c"
  shows "fileContent fs1 p = Some c"
proof -
  from assms(2) have m: "map_of fs p = Some (File c)"
    by (auto simp add: fileContent_def split: option.splits node.splits)
  from assms(1) have "fs1 = fs \<or> fs1 = fs @ [(d, Dir)]"
    by (auto simp add: mkdir_def split: option.splits node.splits)
  with m have "map_of fs1 p = Some (File c)"
    by (auto simp add: map_add_def)
  then show ?thesis by (simp add: fileContent_def)
qed

lemma install_zip:
  assumes "endsWith archivePath ''.zip''"
    and "fileContent fs archivePath = Some content" and "mkdir folderPath fs = Inr fs'"
  shows "install rt archivePath folderPath fs =
           (case unzip rt content of
              None \<Rightarrow> (Inl (ExtractionFailed ''unzip''), fs)
            | Some entries \<Rightarrow> (Inr (), addEntries folderPath entries fs'))"
  using assms by (simp add: install_def extractZip_def split: option.split)

lemma install_tar_bz2:
  assumes "endsWith archivePath ''.tar.bz2''"
    and "fileContent fs archivePath = Some content" and "mkdir folderPath fs = Inr fs'"
    and "createFile (makeTempFile rt) fs' = Inr fs''"
  shows "install rt archivePath folderPath fs =
           (if \<not> fst (bzcat rt content)
            then (Inl (ExtractionFailed ''failed bzcat''),
                  appendFile (makeTempFile rt) (snd (bzcat rt content)) fs'')
            else (case tar rt TarPlain (snd (bzcat rt content)) of
                    None \<Rightarrow> (Inl (ExtractionFailed ''failed untar''),
                             appendFile (makeTempFile rt) (snd (bzcat rt content)) fs'')
                  | Some entries \<Rightarrow>
                      (Inr (), addEntries folderPath entries
                                 (appendFile (makeTempFile rt) (snd (bzcat rt content)) fs''))))"
proof -
  from assms(1) have "\<not> endsWith archivePath ''.zip''" using endsWith_exclusive(1) by blast
  with assms mkdir_fileContent [OF assms(3,2)] show ?thesis
    by (simp add: install_def extractTarBz2_def Let_def split: prod.split option.split)
qed

lemma install_tar_gz:
  assumes "endsWith archivePath ''.tar.gz''"
    and "fileContent fs archivePath = Some content" and "mkdir folderPath fs = Inr fs'"
  shows "install rt archivePath folderPath fs =
           (case tar rt TarGzip content of
              None \<Rightarrow> (Inl (ExtractionFailed ''failed untar''), fs')
            | Some entries \<Rightarrow> (Inr (), addEntries folderPath entries fs'))"
proof -
  from assms(1) have "\<not> endsWith archivePath ''.zip''" "\<not> endsWith archivePath ''.tar.bz2''"
    using endsWith_exclusive(2,5) by blast+
  with assms mkdir_fileContent [OF assms(3,2)] show ?thesis
    by (simp add: install_def extractTarGz_def untarInto_def split: option.split)
qed

lemma install_tar_xz:
  assumes "endsWith archivePath ''.tar.xz''"
    and "fileContent fs archivePath = Some content" and "mkdir folderPath fs = Inr fs'"
  shows "install rt archivePath folderPath fs =
           (case tar rt TarXz content of
              None \<Rightarrow> (Inl (ExtractionFailed ''failed untar''), fs')
            | Some entries \<Rightarrow> (Inr (), addEntries folderPath entries fs'))"
proof -
  from assms(1) have "\<not> endsWith archivePath ''.zip''" "\<not> endsWith archivePath ''.tar.bz2''"
    "\<not> endsWith archivePath ''.tar.gz''"
    using endsWith_exclusive(3,6,8) by blast+
  with assms mkdir_fileContent [OF assms(3,2)] show ?thesis
    by (simp add: install_def extractTarXz_def untarInto_def split: option.split)
qed

lemma install_dmg:
  assumes "endsWith archivePath ''.dmg''"
    and "fileContent fs archivePath = Some content" and "mkdir folderPath fs = Inr fs'"
  shows "install rt archivePath folderPath fs =
           (case findVolume (hdiutilAttach rt content) of
              None \<Rightarrow> (Inl (ExtractionFailed ''Could not find volume path''), fs')
            | Some mountPath \<Rightarrow>
                (case volumeEntries rt mountPath of
                   None \<Rightarrow>
                     (if hdiutilDetach rt mountPath then Inl (NotFound mountPath)
                      else Inl (ExtractionFailed ''unmounting failed''), fs')
                 | Some names \<Rightarrow>
                     (case filter (\<lambda>n. endsWith n ''.app'') names of
                        [] \<Rightarrow>
                          (if hdiutilDetach rt mountPath
                           then Inl (ExtractionFailed ''Cannot find app'')
                           else Inl (ExtractionFailed ''unmounting failed''), fs')
                      | appName # others \<Rightarrow>
                          (if hdiutilDetach rt mountPath then Inr ()
                           else Inl (ExtractionFailed ''unmounting failed''),
                           addEntries folderPath
                             (copyDir rt (pathJoin [mountPath, appName]) folderPath) fs'))))"
proof -
  from assms(1) have "\<not> endsWith archivePath ''.zip''" "\<not> endsWith archivePath ''.tar.bz2''"
    "\<not> endsWith archivePath ''.tar.gz''" "\<not> endsWith archivePath ''.tar.xz''"
    using endsWith_exclusive(4,7,9,10) by blast+
  with assms mkdir_fileContent [OF assms(3,2)] show ?thesis
    by (simp add: install_def installDMG_def detachAfter_def Let_def
          split: option.split list.split)
qed

lemma install_unsupported:
  "(\<exists>p. fst (install rt archivePath folderPath fs) = Inl (UnsupportedArchiveFormat p))
     \<longleftrightarrow> \<not> (endsWith archivePath ''.zip'' \<or> endsWith archivePath ''.tar.bz2'' \<or>
            endsWith archivePath ''.tar.gz'' \<or> endsWith archivePath ''.tar.xz'' \<or>
            endsWith archivePath ''.dmg'')"
  using extractZip_not_unsupported [of rt archivePath folderPath fs]
    extractTarBz2_not_unsupported [of rt archivePath folderPath fs]
    untarInto_not_unsupported [of rt TarGzip archivePath folderPath fs]
    untarInto_not_unsupported [of rt TarXz archivePath folderPath fs]
    dmg_branch_not_unsupported [where d = folderPath and fs = fs and rt = rt and a = archivePath]
  by (simp add: install_def extractTarGz_def extractTarXz_def)

text \<open>
  C7. \<open>install\<close> dispatches on the extension of the archive path. For an archive that
  is a regular file with the bytes \<open>content\<close> and a destination folder that can be made
  (\<open>fs'\<close> is the disk with the folder):
  \<^item> \<open>.zip\<close>: the zip routine is run on the bytes and its entries are written into
    the folder;
  \<^item> \<open>.tar.bz2\<close>: \<open>bzcat\<close> decompresses the bytes into the temporary file, then
    \<open>tar -xvf\<close> unpacks the decompressed bytes into the folder; a failing \<open>bzcat\<close> or
    \<open>tar\<close> is an extraction failure;
  \<^item> \<open>.tar.gz\<close>: \<open>tar -xzf\<close> unpacks the bytes into the folder;
  \<^item> \<open>.tar.xz\<close>: \<open>tar -xJf\<close> unpacks the bytes into the folder;
  \<^item> \<open>.dmg\<close>: the image is attached, the volume path is read from the output, the
    first entry of the volume ending in \<open>.app\<close> is copied into the folder, and the volume
    is detached whenever it was found, a failed detach replacing the outcome.

  And \<open>install\<close> fails with \<open>UnsupportedArchiveFormat\<close> if and only if the path ends with
  none of the five extensions.
\<close>

theorem install_dispatch:
  "(endsWith archivePath ''.zip'' \<and> fileContent fs archivePath = Some content \<and>
      mkdir folderPath fs = Inr fs' \<longrightarrow>
        install rt archivePath folderPath fs =
          (case unzip rt content of
             None \<Rightarrow> (Inl (ExtractionFailed ''unzip''), fs)
           | Some entries \<Rightarrow> (Inr (), addEntries folderPath entries fs')))
   \<and> (endsWith archivePath ''.tar.bz2'' \<and> fileContent fs archivePath = Some content \<and>
      mkdir folderPath fs = Inr fs' \<and> createFile (makeTempFile rt) fs' = Inr fs'' \<longrightarrow>
        install rt archivePath folderPath fs =
          (if \<not> fst (bzcat rt content)
           then (Inl (ExtractionFailed ''failed bzcat''),
                 appendFile (makeTempFile rt) (snd (bzcat rt content)) fs'')
           else (case tar rt TarPlain (snd (bzcat rt content)) of
                   None \<Rightarrow> (Inl (ExtractionFailed ''failed untar''),
                            appendFile (makeTempFile rt) (snd (bzcat rt content)) fs'')
                 | Some entries \<Rightarrow>
                     (Inr (), addEntries folderPath entries
                                (appendFile (makeTempFile rt) (snd (bzcat rt content)) fs'')))))
   \<and> (endsWith archivePath ''.tar.gz'' \<and> fileContent fs archivePath = Some content \<and>
      mkdir folderPath fs = Inr fs' \<longrightarrow>
        install rt archivePath folderPath fs =
          (case tar rt TarGzip content of
             None \<Rightarrow> (Inl (ExtractionFailed ''failed untar''), fs')
           | Some entries \<Rightarrow> (Inr (), addEntries folderPath entries fs')))
   \<and> (endsWith archivePath ''.tar.xz'' \<and> fileContent fs archivePath = Some content \<and>
      mkdir folderPath fs = Inr fs' \<longrightarrow>
        install rt archivePath folderPath fs =
          (case tar rt TarXz content of
             None \<Rightarrow> (Inl (ExtractionFailed ''failed untar''), fs')
           | Some entries \<Rightarrow> (Inr (), addEntries folderPath entries fs')))
   \<and> (endsWith archivePath ''.dmg'' \<and> fileContent fs archivePath = Some content \<and>
      mkdir folderPath fs = Inr fs' \<longrightarrow>
        install rt archivePath folderPath fs =
          (case findVolume (hdiutilAttach rt content) of
             None \<Rightarrow> (Inl (ExtractionFailed ''Could not find volume path''), fs')
           | Some mountPath \<Rightarrow>
               (case volumeEntries rt mountPath of
                  None \<Rightarrow>
                    (if hdiutilDetach rt mountPath then Inl (NotFound mountPath)
                     else Inl (ExtractionFailed ''unmounting failed''), fs')
                | Some names \<Rightarrow>
                    (case filter (\<lambda>n. endsWith n ''.app'') names of
                       [] \<Rightarrow>
                         (if hdiutilDetach rt mountPath
                          then Inl (ExtractionFailed ''Cannot find app'')
                          else Inl (ExtractionFailed ''unmounting failed''), fs')
                     | appName # others \<Rightarrow>
                         (if hdiutilDetach rt mountPath then Inr ()
                          else Inl (ExtractionFailed ''unmounting failed''),
                          addEntries folderPath
                            (copyDir rt (pathJoin [mountPath, appName]) folderPath) fs')))))
   \<and> ((\<exists>p. fst (install rt archivePath folderPath fs) = Inl (UnsupportedArchiveFormat p))
        \<longleftrightarrow> \<not> (endsWith archivePath ''.zip'' \<or> endsWith archivePath ''.tar.bz2'' \<or>
               endsWith archivePath ''.tar.gz'' \<or> endsWith archivePath ''.tar.xz'' \<or>
               endsWith archivePath ''.dmg''))"
  using install_zip [of archivePath fs content folderPath fs' rt]
    install_tar_bz2 [of archivePath fs content folderPath fs' rt fs'']
    install_tar_gz [of archivePath fs content folderPath fs' rt]
    install_tar_xz [of archivePath fs content folderPath fs' rt]
    install_dmg [of archivePath fs content folderPath fs' rt]
    install_unsupported [of rt archivePath folderPath fs]
  by (intro conjI impI) (elim conjE, assumption | assumption)+

theorem install_dispatch_witness:
  "endsWith ''/d/a.zip'' ''.zip''
   \<and> fileContent [(''/d/a.zip'', File [1, 2, 3])] ''/d/a.zip'' = Some [1, 2, 3]
   \<and> mkdir ''/d/out'' [(''/d/a.zip'', File [1, 2, 3])] =
       Inr [(''/d/a.zip'', File [1, 2, 3]), (''/d/out'', Dir)]
   \<and> install extractingRuntime ''/d/a.zip'' ''/d/out'' [(''/d/a.zip'', File [1, 2, 3])] =
       (Inr (), [(''/d/a.zip'', File [1, 2, 3]), (''/d/out'', Dir),
                 (''/d/out/from-zip'', File [1, 2, 3])])
   \<and> endsWith ''/d/a.tar.bz2'' ''.tar.bz2''
   \<and> fileContent [(''/d/a.tar.bz2'', File [0x42, 0x5A, 3])] ''/d/a.tar.bz2'' =
       Some [0x42, 0x5A, 3]
   \<and> mkdir ''/d/out'' [(''/d/a.tar.bz2'', File [0x42, 0x5A, 3])] =
       Inr [(''/d/a.tar.bz2'', File [0x42, 0x5A, 3]), (''/d/out'', Dir)]
   \<and> createFile (makeTempFile extractingRuntime)
         [(''/d/a.tar.bz2'', File [0x42, 0x5A, 3]), (''/d/out'', Dir)] =
       Inr [(''/d/a.tar.bz2'', File [0x42, 0x5A, 3]), (''/d/out'', Dir),
            (''/tmp/deno-tmp'', File [])]
   \<and> install extractingRuntime ''/d/a.tar.bz2'' ''/d/out''
         [(''/d/a.tar.bz2'', File [0x42, 0x5A, 3])] =
       (Inr (), [(''/d/a.tar.bz2'', File [0x42, 0x5A, 3]), (''/d/out'', Dir),
                 (''/tmp/deno-tmp'', File [3]), (''/d/out/from-tar'', File [3])])
   \<and> endsWith ''/d/a.tar.gz'' ''.tar.gz''
   \<and> fileContent [(''/d/a.tar.gz'', File [1, 2, 3])] ''/d/a.tar.gz'' = Some [1, 2, 3]
   \<and> mkdir ''/d/out'' [(''/d/a.tar.gz'', File [1, 2, 3])] =
       Inr [(''/d/a.tar.gz'', File [1, 2, 3]), (''/d/out'', Dir)]
   \<and> install extractingRuntime ''/d/a.tar.gz'' ''/d/out'' [(''/d/a.tar.gz'', File [1, 2, 3])] =
       (Inr (), [(''/d/a.tar.gz'', File [1, 2, 3]), (''/d/out'', Dir),
                 (''/d/out/from-tar-gzip'', File [1, 2, 3])])
   \<and> endsWith ''/d/a.tar.xz'' ''.tar.xz''
   \<and> fileContent [(''/d/a.tar.xz'', File [1, 2, 3])] ''/d/a.tar.xz'' = Some [1, 2, 3]
   \<and> mkdir ''/d/out'' [(''/d/a.tar.xz'', File [1, 2, 3])] =
       Inr [(''/d/a.tar.xz'', File [1, 2, 3]), (''/d/out'', Dir)]
   \<and> install extractingRuntime ''/d/a.tar.xz'' ''/d/out'' [(''/d/a.tar.xz'', File [1, 2, 3])] =
       (Inr (), [(''/d/a.tar.xz'', File [1, 2, 3]), (''/d/out'', Dir),
                 (''/d/out/from-tar-xz'', File [1, 2, 3])])
   \<and> endsWith ''/d/a.dmg'' ''.dmg''
   \<and> fileContent [(''/d/a.dmg'', File [1, 2, 3])] ''/d/a.dmg'' = Some [1, 2, 3]
   \<and> mkdir ''/d/out'' [(''/d/a.dmg'', File [1, 2, 3])] =
       Inr [(''/d/a.dmg'', File [1, 2, 3]), (''/d/out'', Dir)]
   \<and> install extractingRuntime ''/d/a.dmg'' ''/d/out'' [(''/d/a.dmg'', File [1, 2, 3])] =
       (Inr (), [(''/d/a.dmg'', File [1, 2, 3]), (''/d/out'', Dir), (''/d/out/Contents'', Dir)])
   \<and> \<not> (endsWith ''/d/a.rar'' ''.zip'' \<or> endsWith ''/d/a.rar'' ''.tar.bz2'' \<or>
          endsWith ''/d/a.rar'' ''.tar.gz'' \<or> endsWith ''/d/a.rar'' ''.tar.xz'' \<or>
          endsWith ''/d/a.rar'' ''.dmg'')
   \<and> (\<exists>p. fst (install extractingRuntime ''/d/a.rar'' ''/d/out''
                     [(''/d/a.rar'', File [1, 2, 3])]) = Inl (UnsupportedArchiveFormat p))"
proof -
  have z1: "endsWith ''/d/a.zip'' ''.zip''" by code_simp
  have z2: "fileContent [(''/d/a.zip'', File [1, 2, 3])] ''/d/a.zip'' = Some [1, 2, 3]"
    by code_simp
  have z3: "mkdir ''/d/out'' [(''/d/a.zip'', File [1, 2, 3])] =
       Inr [(''/d/a.zip'', File [1, 2, 3]), (''/d/out'', Dir)]"
    by code_simp
  note z = install_dispatch [where rt = extractingRuntime, THEN conjunct1, rule_format,
      OF conjI [OF z1 conjI [OF z2 z3]]]
  have z4: "install extractingRuntime ''/d/a.zip'' ''/d/out'' [(''/d/a.zip'', File [1, 2, 3])] =
       (Inr (), [(''/d/a.zip'', File [1, 2, 3]), (''/d/out'', Dir),
                 (''/d/out/from-zip'', File [1, 2, 3])])"
    by (simp only: z) code_simp
  have b1: "endsWith ''/d/a.tar.bz2'' ''.tar.bz2''" by code_simp
  have b2: "fileContent [(''/d/a.tar.bz2'', File [0x42, 0x5A, 3])] ''/d/a.tar.bz2'' =
       Some [0x42, 0x5A, 3]"
    by code_simp
  have b3: "mkdir ''/d/out'' [(''/d/a.tar.bz2'', File [0x42, 0x5A, 3])] =
       Inr [(''/d/a.tar.bz2'', File [0x42, 0x5A, 3]), (''/d/out'', Dir)]"
    by code_simp
  have b4: "createFile (makeTempFile extractingRuntime)
         [(''/d/a.tar.bz2'', File [0x42, 0x5A, 3]), (''/d/out'', Dir)] =
       Inr [(''/d/a.tar.bz2'', File [0x42, 0x5A, 3]), (''/d/out'', Dir),
            (''/tmp/deno-tmp'', File [])]"
    by code_simp
  note b = install_dispatch [THEN conjunct2, THEN conjunct1, rule_format,
      OF conjI [OF b1 conjI [OF b2 conjI [OF b3 b4]]]]
  have b5: "install extractingRuntime ''/d/a.tar.bz2'' ''/d/out''
         [(''/d/a.tar.bz2'', File [0x42, 0x5A, 3])] =
       (Inr (), [(''/d/a.tar.bz2'', File [0x42, 0x5A, 3]), (''/d/out'', Dir),
                 (''/tmp/deno-tmp'', File [3]), (''/d/out/from-tar'', File [3])])"
    by (simp only: b) code_simp
  have g1: "endsWith ''/d/a.tar.gz'' ''.tar.gz''" by code_simp
  have g2: "fileContent [(''/d/a.tar.gz'', File [1, 2, 3])] ''/d/a.tar.gz'' = Some [1, 2, 3]"
    by code_simp
  have g3: "mkdir ''/d/out'' [(''/d/a.tar.gz'', File [1, 2, 3])] =
       Inr [(''/d/a.tar.gz'', File [1, 2, 3]), (''/d/out'', Dir)]"
    by code_simp
  note g = install_dispatch [where rt = extractingRuntime,
      THEN conjunct2, THEN conjunct2, THEN conjunct1, rule_format,
      OF conjI [OF g1 conjI [OF g2 g3]]]
  have g4: "install extractingRuntime ''/d/a.tar.gz'' ''/d/out''
         [(''/d/a.tar.gz'', File [1, 2, 3])] =
       (Inr (), [(''/d/a.tar.gz'', File [1, 2, 3]), (''/d/out'', Dir),
                 (''/d/out/from-tar-gzip'', File [1, 2, 3])])"
    by (simp only: g) code_simp
  have x1: "endsWith ''/d/a.tar.xz'' ''.tar.xz''" by code_simp
  have x2: "fileContent [(''/d/a.tar.xz'', File [1, 2, 3])] ''/d/a.tar.xz'' = Some [1, 2, 3]"
    by code_simp
  have x3: "mkdir ''/d/out'' [(''/d/a.tar.xz'', File [1, 2, 3])] =
       Inr [(''/d/a.tar.xz'', File [1, 2, 3]), (''/d/out'', Dir)]"
    by code_simp
  note x = install_dispatch [where rt = extractingRuntime,
      THEN conjunct2, THEN conjunct2, THEN conjunct2, THEN conjunct1, rule_format,
      OF conjI [OF x1 conjI [OF x2 x3]]]
  have x4: "install extractingRuntime ''/d/a.tar.xz'' ''/d/out''
         [(''/d/a.tar.xz'', File [1, 2, 3])] =
       (Inr (), [(''/d/a.tar.xz'', File [1, 2, 3]), (''/d/out'', Dir),
                 (''/d/out/from-tar-xz'', File [1, 2, 3])])"
    by (simp only: x) code_simp
  have d1: "endsWith ''/d/a.dmg'' ''.dmg''" by code_simp
  have d2: "fileContent [(''/d/a.dmg'', File [1, 2, 3])] ''/d/a.dmg'' = Some [1, 2, 3]"
    by code_simp
  have d3: "mkdir ''/d/out'' [(''/d/a.dmg'', File [1, 2, 3])] =
       Inr [(''/d/a.dmg'', File [1, 2, 3]), (''/d/out'', Dir)]"
    by code_simp
  note d = install_dispatch [where rt = extractingRuntime,
      THEN conjunct2, THEN conjunct2, THEN conjunct2, THEN conjunct2, THEN conjunct1,
      rule_format, OF conjI [OF d1 conjI [OF d2 d3]]]
  have d4: "install extractingRuntime ''/d/a.dmg'' ''/d/out'' [(''/d/a.dmg'', File [1, 2, 3])] =
       (Inr (), [(''/d/a.dmg'', File [1, 2, 3]), (''/d/out'', Dir), (''/d/out/Contents'', Dir)])"
    by (simp only: d) code_simp
  have none: "\<not> (endsWith ''/d/a.rar'' ''.zip'' \<or> endsWith ''/d/a.rar'' ''.tar.bz2'' \<or>
          endsWith ''/d/a.rar'' ''.tar.gz'' \<or> endsWith ''/d/a.rar'' ''.tar.xz'' \<or>
          endsWith ''/d/a.rar'' ''.dmg'')"
    by code_simp
  note u = install_dispatch [where rt = extractingRuntime and archivePath = "''/d/a.rar''"
      and folderPath = "''/d/out''" and fs = "[(''/d/a.rar'', File [1, 2, 3])]",
      THEN conjunct2, THEN conjunct2, THEN conjunct2, THEN conjunct2, THEN conjunct2,
      THEN iffD2, OF none]
  show ?thesis
    using z1 z2 z3 z4 b1 b2 b3 b4 b5 g1 g2 g3 g4 x1 x2 x3 x4 d1 d2 d3 d4 none u
    by (intro conjI)
qed

subsection \<open>remove and localRevisions\<close>

lemma exists_removeRecursive:
  "exists (removeRecursive p fs) q \<longleftrightarrow> exists fs q \<and> \<not> pathUnder p q"
proof -
  have "map_of (filter (\<lambda>(q, n). \<not> pathUnder p q) fs) q =
          (if \<not> pathUnder p q then map_of fs q else None)"
    by (induction fs) auto
  then show ?thesis by (simp add: exists_def removeRecursive_def)
qed

lemma map_of_removeRecursive:
  "\<not> pathUnder p q \<Longrightarrow> map_of (removeRecursive p fs) q = map_of fs q"
  unfolding removeRecursive_def by (induction fs) auto

lemma pathUnder_self: "pathUnder p p"
  by (simp add: pathUnder_def)

lemma folderName_nonempty: "folderName platform revision \<noteq> []"
  by (cases platform) (simp_all add: folderName_def)

lemma childName_Some:
  "childName dir q = Some n \<Longrightarrow> q = dir @ ''/'' @ n"
  by (auto simp add: childName_def startsWith_def Let_def split: if_splits)
     (metis append_take_drop_id append.assoc append_Cons append_Nil)


lemma in_set_exists: "(q, n) \<in> set fs \<Longrightarrow> exists fs q"
  by (simp add: exists_def map_of_eq_None_iff image_iff) force

lemma readDir_member:
  assumes "readDir fs dir = Inr names" and "name \<in> set names"
  shows "exists fs (dir @ ''/'' @ name)"
proof -
  from assms(1) have names: "names = List.map_filter (\<lambda>(q, n). childName dir q) fs"
    by (auto simp add: readDir_def split: option.splits node.splits)
  with assms(2) obtain q n where qn: "(q, n) \<in> set fs" "childName dir q = Some name"
    by (auto simp add: List.map_filter_def)
  from qn(2) have "q = dir @ ''/'' @ name" by (rule childName_Some)
  with qn(1) show ?thesis by (auto intro: in_set_exists)
qed

lemma localRevisions_member:
  assumes "localRevisions rt f fs = Inr revs" and "revision \<in> set revs"
    and "getFolderPath f revision =
           f_downloadsFolder f @ ''/'' @ folderName (f_platform f) revision"
  shows "exists fs (getFolderPath f revision)"
proof -
  from assms(1,2) obtain names where
    rd: "readDir fs (f_downloadsFolder f) = Inr names" and
    revs: "revs = map (\<lambda>entry. pn_revision (the entry))
                      (filter (\<lambda>entry. entry \<noteq> None \<and>
                                 pn_platform (the entry) = platformName (f_platform f))
                         (map (\<lambda>fileName. parseName (inheritedKeys rt) (f_product f) fileName)
                            names))"
    by (auto simp add: localRevisions_def split: if_splits sum.splits)
  from revs assms(2) obtain name e where
    name: "name \<in> set names" and
    e: "parseName (inheritedKeys rt) (f_product f) name = Some e" and
    pl: "pn_platform e = platformName (f_platform f)" and
    rv: "pn_revision e = revision"
    by auto
  from e have "name = pn_platform e @ ''-'' @ pn_revision e" by (rule parseName_name)
  with pl rv have "name = folderName (f_platform f) revision" by (simp add: folderName_def)
  with readDir_member [OF rd name] assms(3) show ?thesis
    by simp
qed

lemma orElse_nonempty: "d \<noteq> [] \<Longrightarrow> orElse x d \<noteq> []"
  by (simp add: orElse_def split: option.split)

lemma normalizePath_nonempty: "normalizePath p \<noteq> []"
  by (auto simp add: normalizePath_def Let_def)

lemma pathJoin_nonempty: "pathJoin segments \<noteq> []"
  by (simp add: pathJoin_def Let_def normalizePath_nonempty)

text \<open>The constructor never leaves the downloads folder empty.\<close>

lemma newBrowserFetcher_downloadsFolder:
  assumes "newBrowserFetcher rt opts = Inr f"
  shows "f_downloadsFolder f \<noteq> []"
proof -
  have "orElse (o_path opts) (pathJoin segments) \<noteq> []" for segments
    by (rule orElse_nonempty) (rule pathJoin_nonempty)
  with assms show ?thesis
    by (auto simp add: newBrowserFetcher_def Let_def split: option.splits sum.splits if_splits)
qed

text \<open>
  C9. When the download root does not exist, \<open>localRevisions\<close> returns the empty list
  and raises no error.
\<close>

theorem localRevisions_without_root:
  "\<not> exists fs (f_downloadsFolder f) \<Longrightarrow> localRevisions rt f fs = Inr []"
  by (simp add: localRevisions_def)

theorem localRevisions_without_root_witness:
  "\<not> exists [] (f_downloadsFolder chromeFetcher)
   \<and> localRevisions exampleRuntime chromeFetcher [] = Inr []"
proof -
  have hyp: "\<not> exists [] (f_downloadsFolder chromeFetcher)"
    by (simp add: exists_def)
  from hyp show ?thesis
    using localRevisions_without_root [of "[]" chromeFetcher exampleRuntime] by simp
qed

text \<open>
  Where the join leaves the folder path as it was built (a downloads folder in normal
  form and a revision without path separators), \<open>remove\<close> behaves as documented: it
  fails with \<open>NotInstalled\<close> if and only if the folder of the revision does not exist;
  otherwise the folder and everything below it are gone, every other path is as before,
  and the revision is not among the local revisions listed afterwards.
\<close>

lemma remove_plain_revision:
  assumes plain: "getFolderPath f revision =
                    f_downloadsFolder f @ ''/'' @ folderName (f_platform f) revision"
  shows "((\<exists>r. remove f revision fs = Inl (NotInstalled r))
            \<longleftrightarrow> \<not> exists fs (getFolderPath f revision))
     \<and> (exists fs (getFolderPath f revision) \<longrightarrow>
           (\<exists>fs'. remove f revision fs = Inr fs'
              \<and> (\<forall>q. pathUnder (getFolderPath f revision) q \<longrightarrow> \<not> exists fs' q)
              \<and> (\<forall>q. \<not> pathUnder (getFolderPath f revision) q \<longrightarrow> map_of fs' q = map_of fs q)
              \<and> (\<forall>revs. localRevisions rt f fs' = Inr revs \<longrightarrow> revision \<notin> set revs)))"
proof (intro conjI impI)
  show "(\<exists>r. remove f revision fs = Inl (NotInstalled r))
            \<longleftrightarrow> \<not> exists fs (getFolderPath f revision)"
    by (simp add: remove_def Let_def)
next
  assume ex: "exists fs (getFolderPath f revision)"
  let ?fs' = "removeRecursive (getFolderPath f revision) fs"
  have r: "remove f revision fs = Inr ?fs'"
    using ex by (simp add: remove_def Let_def)
  have gone: "\<forall>q. pathUnder (getFolderPath f revision) q \<longrightarrow> \<not> exists ?fs' q"
    by (simp add: exists_removeRecursive)
  have kept: "\<forall>q. \<not> pathUnder (getFolderPath f revision) q \<longrightarrow> map_of ?fs' q = map_of fs q"
    by (simp add: map_of_removeRecursive)
  have unlisted: "\<forall>revs. localRevisions rt f ?fs' = Inr revs \<longrightarrow> revision \<notin> set revs"
  proof (intro allI impI notI)
    fix revs
    assume "localRevisions rt f ?fs' = Inr revs" and "revision \<in> set revs"
    then have "exists ?fs' (getFolderPath f revision)"
      using plain by (rule localRevisions_member)
    then show False by (simp add: exists_removeRecursive pathUnder_self)
  qed
  from r gone kept unlisted
  show "\<exists>fs'. remove f revision fs = Inr fs'
              \<and> (\<forall>q. pathUnder (getFolderPath f revision) q \<longrightarrow> \<not> exists fs' q)
              \<and> (\<forall>q. \<not> pathUnder (getFolderPath f revision) q \<longrightarrow> map_of fs' q = map_of fs q)
              \<and> (\<forall>revs. localRevisions rt f fs' = Inr revs \<longrightarrow> revision \<notin> set revs)"
    by blast
qed


subsection \<open>downloadFile\<close>

lemma streamBody_progress:
  "progress (streamBody p tot n chunks w) =
     progress w @ map (\<lambda>k. (n + sum_list (map length (take k chunks)), tot))
                    [1..<Suc (length chunks)]"
proof (induction chunks arbitrary: n w)
  case Nil
  then show ?case by simp
next
  case (Cons chunk rest)
  have "[Suc 0..<Suc (Suc (length rest))] = Suc 0 # [Suc (Suc 0)..<Suc (Suc (length rest))]"
    by (simp add: upt_conv_Cons del: upt_Suc)
  also have "[Suc (Suc 0)..<Suc (Suc (length rest))] = map Suc [Suc 0..<Suc (length rest)]"
    by (simp only: map_Suc_upt)
  finally have shift:
    "[Suc 0..<Suc (Suc (length rest))] = Suc 0 # map Suc [Suc 0..<Suc (length rest)]" .
  show ?case
    by (simp add: Cons.IH shift comp_def add.assoc del: upt_Suc)
qed

lemma parseInt_empty: "parseInt [] = NaN"
  by (simp add: parseInt_def)

text \<open>
  C5, as amended. For a GET download that is answered with status 200 and no
  content-length header and whose file can be created, the progress callback is called
  once per chunk, in order, with the cumulative number of bytes received and a total
  that is NaN (the result of \<open>parseInt("", 10)\<close>), not 0.
\<close>

theorem downloadFile_progress_unknown_total:
  assumes "fetch rt GET url = Some response"
    and "status response = 200"
    and "headerGet response ''content-length'' = None"
    and "createFile destinationPath (files w) = Inr fs1"
  shows "progress (snd (downloadFile rt url destinationPath w)) =
           progress w @
           map (\<lambda>k. (sum_list (map length (take k (body response))), NaN))
             [1..<Suc (length (body response))]"
  using assms
  by (simp add: downloadFile_def Let_def parseInt_empty streamBody_progress)

theorem downloadFile_progress_unknown_total_witness:
  "fetch exampleRuntime GET ''https://h/a.zip'' =
      Some \<lparr>status = 200, headers = [], body = xzArchive, bodyError = False\<rparr>
   \<and> status \<lparr>status = 200, headers = [], body = xzArchive, bodyError = False\<rparr> = 200
   \<and> headerGet \<lparr>status = 200, headers = [], body = xzArchive, bodyError = False\<rparr>
         ''content-length'' = None
   \<and> createFile ''/d/a.zip'' (files emptyWorld) = Inr [(''/d/a.zip'', File [])]
   \<and> progress (snd (downloadFile exampleRuntime ''https://h/a.zip'' ''/d/a.zip'' emptyWorld)) =
       [(8, NaN), (11, NaN)]"
proof -
  let ?r = "\<lparr>status = 200, headers = [], body = xzArchive, bodyError = False\<rparr>"
  have h1: "fetch exampleRuntime GET ''https://h/a.zip'' = Some ?r"
    by (simp add: exampleRuntime_def)
  have h2: "status ?r = 200" by simp
  have h3: "headerGet ?r ''content-length'' = None" by (simp add: headerGet_def)
  have h4: "createFile ''/d/a.zip'' (files emptyWorld) = Inr [(''/d/a.zip'', File [])]"
    by (simp add: createFile_def emptyWorld_def put_def exists_def)
  have "progress (snd (downloadFile exampleRuntime ''https://h/a.zip'' ''/d/a.zip'' emptyWorld)) =
          progress emptyWorld @
          map (\<lambda>k. (sum_list (map length (take k (body ?r))), NaN))
            [1..<Suc (length (body ?r))]"
    using h1 h2 h3 h4 by (rule downloadFile_progress_unknown_total)
  also have "\<dots> = [(8, NaN), (11, NaN)]"
    by (simp add: emptyWorld_def xzArchive_def upt_conv_Cons)
  finally show ?thesis using h1 h2 h3 h4 by (intro conjI)
qed

text \<open>
  C5 as stated fails: the example server sends no content-length header, and the
  callback receives NaN as the total, not 0.
\<close>

theorem downloadFile_total_counterexample:
  "headerGet \<lparr>status = 200, headers = [], body = xzArchive, bodyError = False\<rparr>
      ''content-length'' = None
   \<and> fetch exampleRuntime GET ''https://h/a.zip'' =
      Some \<lparr>status = 200, headers = [], body = xzArchive, bodyError = False\<rparr>
   \<and> progress (snd (downloadFile exampleRuntime ''https://h/a.zip'' ''/d/a.zip'' emptyWorld)) =
       [(8, NaN), (11, NaN)]
   \<and> NaN \<noteq> Num 0"
  by (simp add: headerGet_def exampleRuntime_def downloadFile_def Let_def parseInt_def
        createFile_def emptyWorld_def put_def exists_def xzArchive_def appendFile_def)

subsection \<open>detectAndRenameArchive\<close>

lemma length_readHeader: "length (readHeader content) = 20"
  by (simp add: readHeader_def)

lemma take2_nth:
  "2 \<le> length xs \<Longrightarrow> take 2 xs = [a, b] \<longleftrightarrow> xs ! 0 = a \<and> xs ! 1 = b"
  by (cases xs; cases "tl xs") auto

lemma take6_nth:
  "6 \<le> length xs \<Longrightarrow>
   take 6 xs = [a, b, c, d, e, f] \<longleftrightarrow>
     xs ! 0 = a \<and> xs ! 1 = b \<and> xs ! 2 = c \<and> xs ! 3 = d \<and> xs ! 4 = e \<and> xs ! 5 = f"
  by (auto simp add: list_eq_iff_nth_eq eval_nat_numeral less_Suc_eq all_conj_distrib)

lemma magicFormat_nth:
  "magicFormat content =
     (let buffer = readHeader content in
      if buffer ! 0 = 0xfd \<and> buffer ! 1 = 0x37 \<and> buffer ! 2 = 0x7a \<and>
         buffer ! 3 = 0x58 \<and> buffer ! 4 = 0x5a \<and> buffer ! 5 = 0x00 then FormatTarXz
      else if buffer ! 0 = 0x1f \<and> buffer ! 1 = 0x8b then FormatTarGz
      else if buffer ! 0 = 0x42 \<and> buffer ! 1 = 0x5a then FormatTarBz2
      else if buffer ! 0 = 0x50 \<and> buffer ! 1 = 0x4b then FormatZip
      else FormatUnknown)"
proof -
  have l: "length (readHeader content) = 20" by (rule length_readHeader)
  have t6: "take 6 (readHeader content) = [a, b, c, d, e, f] \<longleftrightarrow>
     readHeader content ! 0 = a \<and> readHeader content ! 1 = b \<and> readHeader content ! 2 = c \<and>
     readHeader content ! 3 = d \<and> readHeader content ! 4 = e \<and> readHeader content ! 5 = f"
    for a b c d e f
    by (rule take6_nth) (simp add: l)
  have t2: "take 2 (readHeader content) = [a, b] \<longleftrightarrow>
     readHeader content ! 0 = a \<and> readHeader content ! 1 = b" for a b
    by (rule take2_nth) (simp add: l)
  show ?thesis
    unfolding magicFormat_def readHeader_def [symmetric] Let_def
    by (simp only: t6 t2)
qed

lemma detectAndRenameArchive_by_format:
  assumes "fileContent fs archivePath = Some content"
  shows "detectAndRenameArchive rt archivePath fs =
     (case magicFormat content of
        FormatTarXz \<Rightarrow> renameTo archivePath (replaceTarBz2 archivePath ''.tar.xz'') fs
      | FormatTarGz \<Rightarrow> renameTo archivePath (replaceTarBz2 archivePath ''.tar.gz'') fs
      | FormatTarBz2 \<Rightarrow> (Inr archivePath, fs)
      | FormatZip \<Rightarrow> renameTo archivePath (replaceTarBz2 archivePath ''.zip'') fs
      | FormatUnknown \<Rightarrow>
          (case fileCommandFormat (fileCommand rt archivePath content) of
             FormatTarGz \<Rightarrow> renameToCaught archivePath (replaceTarBz2 archivePath ''.tar.gz'') fs
           | FormatZip \<Rightarrow> renameToCaught archivePath (replaceTarBz2 archivePath ''.zip'') fs
           | _ \<Rightarrow> (Inr archivePath, fs)))"
proof -
  from assms have m: "map_of fs archivePath = Some (File content)"
    by (auto simp add: fileContent_def split: option.splits node.splits)
  show ?thesis
    by (simp add: detectAndRenameArchive_def m magicFormat_nth Let_def fileCommandFormat_def
          split: option.split)
qed


lemma replaceTarBz2_other:
  "\<not> endsWith archivePath ''.tar.bz2'' \<Longrightarrow> replaceTarBz2 archivePath ext = archivePath"
  by (simp add: replaceTarBz2_def)

lemma replaceTarBz2_ends:
  "endsWith archivePath ''.tar.bz2'' \<Longrightarrow>
   replaceTarBz2 archivePath ext = take (length archivePath - 8) archivePath @ ext"
  by (simp add: replaceTarBz2_def)

lemma replaceTarBz2_changes:
  assumes "endsWith archivePath ''.tar.bz2''" and "ext \<noteq> ''.tar.bz2''"
  shows "take (length archivePath - 8) archivePath @ ext \<noteq> archivePath"
proof -
  from assms(1) obtain q where "archivePath = q @ ''.tar.bz2''"
    by (auto simp add: endsWith_append)
  with assms(2) show ?thesis by simp
qed

lemma renameTo_same:
  "fileContent fs p = Some c \<Longrightarrow> renameTo p p fs = (Inr p, fs)"
  "fileContent fs p = Some c \<Longrightarrow> renameToCaught p p fs = (Inr p, fs)"
  by (auto simp add: renameTo_def renameToCaught_def rename_def fileContent_def
        split: option.splits node.splits)

lemma renameTo_other:
  assumes "fileContent fs p = Some c" and "new \<noteq> p" and "map_of fs new \<noteq> Some Dir"
  shows "renameTo p new fs = (Inr new, put new (File c) (filter (\<lambda>(q, n). q \<noteq> p) fs))"
    and "renameToCaught p new fs = (Inr new, put new (File c) (filter (\<lambda>(q, n). q \<noteq> p) fs))"
  using assms
  by (auto simp add: renameTo_def renameToCaught_def rename_def fileContent_def
        split: option.splits node.splits)

lemma fileCommandFormat_not_xz: "fileCommandFormat output \<noteq> FormatTarXz"
  by (simp add: fileCommandFormat_def split: option.split)

text \<open>
  C4, as amended. For an archive that is a regular file, \<open>detectAndRenameArchive\<close>
  acts on the format that \<open>classify\<close> gives (magic bytes in the order XZ, gzip, bzip2,
  ZIP on the zero-filled 20-byte buffer, then the output of the \<open>file\<close> command searched
  for "gzip", "bzip2", "Zip" in this order):
  \<^item> when the format is bzip2 or unknown, the path is returned and nothing is renamed;
  \<^item> when the name does not end in \<open>.tar.bz2\<close>, the path is returned and nothing is
    renamed, whatever the format;
  \<^item> when the name ends in \<open>.tar.bz2\<close> and the format is XZ, gzip or ZIP (and no
    directory is in the way), the file is moved to the name with \<open>.tar.bz2\<close> replaced by
    \<open>.tar.xz\<close>, \<open>.tar.gz\<close> or \<open>.zip\<close>, and that name is returned.
\<close>

theorem detectAndRenameArchive_classify:
  assumes "fileContent fs archivePath = Some content"
  shows "(classify rt archivePath content = FormatTarBz2 \<or>
          classify rt archivePath content = FormatUnknown \<longrightarrow>
            detectAndRenameArchive rt archivePath fs = (Inr archivePath, fs))
     \<and> (\<not> endsWith archivePath ''.tar.bz2'' \<longrightarrow>
            detectAndRenameArchive rt archivePath fs = (Inr archivePath, fs))
     \<and> (endsWith archivePath ''.tar.bz2'' \<and>
          (classify rt archivePath content = FormatTarXz \<or>
           classify rt archivePath content = FormatTarGz \<or>
           classify rt archivePath content = FormatZip) \<and>
          formatExtension (classify rt archivePath content) = Some ext \<and>
          map_of fs (take (length archivePath - 8) archivePath @ ext) \<noteq> Some Dir \<longrightarrow>
            detectAndRenameArchive rt archivePath fs =
              (Inr (take (length archivePath - 8) archivePath @ ext),
               put (take (length archivePath - 8) archivePath @ ext) (File content)
                 (filter (\<lambda>(q, n). q \<noteq> archivePath) fs)))"
proof (intro conjI impI)
  assume "classify rt archivePath content = FormatTarBz2 \<or>
          classify rt archivePath content = FormatUnknown"
  then show "detectAndRenameArchive rt archivePath fs = (Inr archivePath, fs)"
    by (auto simp add: detectAndRenameArchive_by_format [OF assms] classify_def
          split: if_splits archiveFormat.splits)
next
  assume "\<not> endsWith archivePath ''.tar.bz2''"
  then show "detectAndRenameArchive rt archivePath fs = (Inr archivePath, fs)"
    by (simp add: detectAndRenameArchive_by_format [OF assms] replaceTarBz2_other
          renameTo_same [OF assms] split: archiveFormat.split)
next
  let ?new = "take (length archivePath - 8) archivePath @ ext"
  assume h: "endsWith archivePath ''.tar.bz2'' \<and>
          (classify rt archivePath content = FormatTarXz \<or>
           classify rt archivePath content = FormatTarGz \<or>
           classify rt archivePath content = FormatZip) \<and>
          formatExtension (classify rt archivePath content) = Some ext \<and>
          map_of fs ?new \<noteq> Some Dir"
  then have ends: "endsWith archivePath ''.tar.bz2''" and nodir: "map_of fs ?new \<noteq> Some Dir"
    by simp_all
  from h have "ext \<noteq> ''.tar.bz2''" by auto
  with ends have neq: "?new \<noteq> archivePath" by (rule replaceTarBz2_changes)
  note mv = renameTo_other [OF assms neq nodir]
  from h fileCommandFormat_not_xz [of "fileCommand rt archivePath content"]
  show "detectAndRenameArchive rt archivePath fs =
      (Inr ?new, put ?new (File content) (filter (\<lambda>(q, n). q \<noteq> archivePath) fs))"
    by (auto simp add: detectAndRenameArchive_by_format [OF assms] classify_def
          replaceTarBz2_ends [OF ends] mv
          split: if_splits archiveFormat.splits)
qed


theorem detectAndRenameArchive_classify_witness:
  "fileContent [(''/d/ff.tar.bz2'', File (concat xzArchive))] ''/d/ff.tar.bz2'' = Some (concat xzArchive)
   \<and> endsWith ''/d/ff.tar.bz2'' ''.tar.bz2''
   \<and> classify exampleRuntime ''/d/ff.tar.bz2'' (concat xzArchive) = FormatTarXz
   \<and> formatExtension FormatTarXz = Some ''.tar.xz''
   \<and> map_of [(''/d/ff.tar.bz2'', File (concat xzArchive))] ''/d/ff.tar.xz'' \<noteq> Some Dir
   \<and> detectAndRenameArchive exampleRuntime ''/d/ff.tar.bz2''
         [(''/d/ff.tar.bz2'', File (concat xzArchive))] =
       (Inr ''/d/ff.tar.xz'', [(''/d/ff.tar.xz'', File (concat xzArchive))])
   \<and> fileContent [(''/d/ff.tar.bz2'', File [0x42, 0x5A, 0x68])] ''/d/ff.tar.bz2'' =
       Some [0x42, 0x5A, 0x68]
   \<and> classify exampleRuntime ''/d/ff.tar.bz2'' [0x42, 0x5A, 0x68] = FormatTarBz2
   \<and> detectAndRenameArchive exampleRuntime ''/d/ff.tar.bz2''
         [(''/d/ff.tar.bz2'', File [0x42, 0x5A, 0x68])] =
       (Inr ''/d/ff.tar.bz2'', [(''/d/ff.tar.bz2'', File [0x42, 0x5A, 0x68])])
   \<and> fileContent [(''/d/ff.tar.xz'', File [0x1F, 0x8B, 0x08])] ''/d/ff.tar.xz'' =
       Some [0x1F, 0x8B, 0x08]
   \<and> \<not> endsWith ''/d/ff.tar.xz'' ''.tar.bz2''
   \<and> detectAndRenameArchive exampleRuntime ''/d/ff.tar.xz''
         [(''/d/ff.tar.xz'', File [0x1F, 0x8B, 0x08])] =
       (Inr ''/d/ff.tar.xz'', [(''/d/ff.tar.xz'', File [0x1F, 0x8B, 0x08])])"
proof -
  let ?xz = "concat xzArchive"
  have c1: "fileContent [(''/d/ff.tar.bz2'', File ?xz)] ''/d/ff.tar.bz2'' = Some ?xz"
    by (simp add: fileContent_def)
  have e1: "endsWith ''/d/ff.tar.bz2'' ''.tar.bz2''"
    by (simp add: endsWith_def)
  have k1: "classify exampleRuntime ''/d/ff.tar.bz2'' ?xz = FormatTarXz"
    by (simp add: classify_def magicFormat_def xzArchive_def)
  have x1: "formatExtension FormatTarXz = Some ''.tar.xz''" by simp
  have d1: "map_of [(''/d/ff.tar.bz2'', File ?xz)] ''/d/ff.tar.xz'' \<noteq> Some Dir" by simp
  have new: "take (length ''/d/ff.tar.bz2'' - 8) ''/d/ff.tar.bz2'' @ ''.tar.xz'' = ''/d/ff.tar.xz''"
    by simp
  have r1: "detectAndRenameArchive exampleRuntime ''/d/ff.tar.bz2''
              [(''/d/ff.tar.bz2'', File ?xz)] =
            (Inr (take (length ''/d/ff.tar.bz2'' - 8) ''/d/ff.tar.bz2'' @ ''.tar.xz''),
             put (take (length ''/d/ff.tar.bz2'' - 8) ''/d/ff.tar.bz2'' @ ''.tar.xz'') (File ?xz)
               (filter (\<lambda>(q, n). q \<noteq> ''/d/ff.tar.bz2'') [(''/d/ff.tar.bz2'', File ?xz)]))"
    using e1 k1 x1 d1
      detectAndRenameArchive_classify [OF c1, where rt = exampleRuntime and ext = "''.tar.xz''"]
    by (simp only: new) simp
  have r1': "detectAndRenameArchive exampleRuntime ''/d/ff.tar.bz2''
              [(''/d/ff.tar.bz2'', File ?xz)] =
            (Inr ''/d/ff.tar.xz'', [(''/d/ff.tar.xz'', File ?xz)])"
    by (simp only: r1 new) (simp add: put_def exists_def)
  have c2: "fileContent [(''/d/ff.tar.bz2'', File [0x42, 0x5A, 0x68])] ''/d/ff.tar.bz2'' =
       Some [0x42, 0x5A, 0x68]"
    by (simp add: fileContent_def)
  have k2: "classify exampleRuntime ''/d/ff.tar.bz2'' [0x42, 0x5A, 0x68] = FormatTarBz2"
    by (simp add: classify_def magicFormat_def)
  have r2: "detectAndRenameArchive exampleRuntime ''/d/ff.tar.bz2''
         [(''/d/ff.tar.bz2'', File [0x42, 0x5A, 0x68])] =
       (Inr ''/d/ff.tar.bz2'', [(''/d/ff.tar.bz2'', File [0x42, 0x5A, 0x68])])"
    using k2 detectAndRenameArchive_classify [OF c2, where rt = exampleRuntime]
    by simp
  have c3: "fileContent [(''/d/ff.tar.xz'', File [0x1F, 0x8B, 0x08])] ''/d/ff.tar.xz'' =
       Some [0x1F, 0x8B, 0x08]"
    by (simp add: fileContent_def)
  have e3: "\<not> endsWith ''/d/ff.tar.xz'' ''.tar.bz2''"
    by (simp add: endsWith_def)
  have r3: "detectAndRenameArchive exampleRuntime ''/d/ff.tar.xz''
         [(''/d/ff.tar.xz'', File [0x1F, 0x8B, 0x08])] =
       (Inr ''/d/ff.tar.xz'', [(''/d/ff.tar.xz'', File [0x1F, 0x8B, 0x08])])"
    using e3 detectAndRenameArchive_classify [OF c3, where rt = exampleRuntime]
    by simp
  show ?thesis
    using c1 e1 k1 x1 d1 r1' c2 k2 r2 c3 e3 r3 by (intro conjI)
qed

text \<open>
  C4 as stated fails where it says that a file whose sniffed format differs from the
  extension of its name is renamed to the matching extension: bzip2 content under a
  name ending in \<open>.tar.gz\<close>, and gzip content under a name ending in \<open>.tar.xz\<close>, are
  both left under their names.
\<close>

theorem detectAndRenameArchive_rename_counterexample:
  "classify exampleRuntime ''/d/ff.tar.gz'' [0x42, 0x5A, 0x68] = FormatTarBz2
   \<and> detectAndRenameArchive exampleRuntime ''/d/ff.tar.gz''
         [(''/d/ff.tar.gz'', File [0x42, 0x5A, 0x68])] =
       (Inr ''/d/ff.tar.gz'', [(''/d/ff.tar.gz'', File [0x42, 0x5A, 0x68])])
   \<and> classify exampleRuntime ''/d/ff.tar.xz'' [0x1F, 0x8B, 0x08] = FormatTarGz
   \<and> detectAndRenameArchive exampleRuntime ''/d/ff.tar.xz''
         [(''/d/ff.tar.xz'', File [0x1F, 0x8B, 0x08])] =
       (Inr ''/d/ff.tar.xz'', [(''/d/ff.tar.xz'', File [0x1F, 0x8B, 0x08])])"
  by (simp add: classify_def magicFormat_def detectAndRenameArchive_def readHeader_def
        replaceTarBz2_def endsWith_def renameTo_def rename_def)

subsection \<open>download: the architecture check\<close>

lemma mkdir_fresh: "\<not> exists fs p \<Longrightarrow> mkdir p fs = Inr (fs @ [(p, Dir)])"
  by (simp add: mkdir_def exists_def)

lemma chrome_not_firefoxLinux: "f_product f = Chrome \<Longrightarrow> \<not> firefoxLinux f"
  by (simp add: firefoxLinux_def)

lemma archiveFileName_other:
  "\<not> firefoxLinux f \<Longrightarrow>
   archiveFileName rt f url revision w = (Inr (last (split CHR ''/'' url)), w)"
  by (simp add: archiveFileName_def)

lemma archiveFileName_firefoxLinux:
  assumes "firefoxLinux f"
  shows "fetch rt HEAD url = None \<Longrightarrow>
           archiveFileName rt f url revision w =
             (Inl NetworkError, w\<lparr>requests := requests w @ [(HEAD, url)]\<rparr>)"
    and "fetch rt HEAD url \<noteq> None \<Longrightarrow>
           \<exists>fileName. archiveFileName rt f url revision w =
             (Inr fileName, w\<lparr>requests := requests w @ [(HEAD, url)]\<rparr>)"
  using assms
  by (auto simp add: archiveFileName_def Let_def split: option.splits)

text \<open>The root folder as \<open>download\<close> leaves it before the architecture check.\<close>

lemma download_after_name:
  assumes "archiveFileName rt f
             (downloadURL rt (f_product f) (f_platform f) (f_downloadHost f) revision)
             revision w = (Inr fileName, w1)"
  shows "download rt f revision w =
     (if exists (files w1) (getFolderPath f revision)
      then (Inr (revisionInfo rt f revision (files w1)), w1)
      else
        (let w2 = w1\<lparr>files := (if \<not> exists (files w1) (f_downloadsFolder f)
                                 then files w1 @ [(f_downloadsFolder f, Dir)]
                                 else files w1)\<rparr>
         in if build_arch rt = ''arm64'' \<and> f_product f = Chrome
            then (Inl UnsupportedArchitectureCombination, w2)
            else
              (case downloadAndInstall rt f
                      (downloadURL rt (f_product f) (f_platform f) (f_downloadHost f) revision)
                      (pathJoin [f_downloadsFolder f, fileName])
                      (getFolderPath f revision) w2 of
                 (r, w3) \<Rightarrow>
                   (let w4 = w3\<lparr>files := cleanup (pathJoin [f_downloadsFolder f, fileName])
                                            (files w3)\<rparr>
                    in case r of
                         Inl e \<Rightarrow> (Inl e, w4)
                       | Inr u \<Rightarrow> markExecutable rt f revision w4))))"
  using assms
  by (simp add: download_def Let_def mkdir_fresh)

lemma download_name_error:
  assumes "archiveFileName rt f
             (downloadURL rt (f_product f) (f_platform f) (f_downloadHost f) revision)
             revision w = (Inl e, w1)"
  shows "download rt f revision w = (Inl e, w1)"
  using assms by (simp add: download_def Let_def)


text \<open>Only the architecture check raises \<open>UnsupportedArchitectureCombination\<close>.\<close>

lemma downloadFile_not_arch:
  "fst (downloadFile rt url p w) \<noteq> Inl UnsupportedArchitectureCombination"
  by (simp add: downloadFile_def Let_def createFile_def split: option.split node.split)

lemma detectAndRenameArchive_not_arch:
  "fst (detectAndRenameArchive rt p fs) \<noteq> Inl UnsupportedArchitectureCombination"
  by (simp add: detectAndRenameArchive_def Let_def renameTo_def renameToCaught_def rename_def
        split: option.split node.split)

lemma extractZip_not_arch:
  "fst (extractZip rt a d fs) \<noteq> Inl UnsupportedArchitectureCombination"
  by (simp add: extractZip_def mkdir_def split: option.split sum.split node.split)

lemma untarInto_not_arch:
  "fst (untarInto rt m a d fs) \<noteq> Inl UnsupportedArchitectureCombination"
  by (simp add: untarInto_def mkdir_def split: option.split sum.split node.split)

lemma extractTarBz2_not_arch:
  "fst (extractTarBz2 rt a d fs) \<noteq> Inl UnsupportedArchitectureCombination"
  by (simp add: extractTarBz2_def mkdir_def createFile_def Let_def
        split: option.split sum.split node.split prod.split)

lemma installDMG_not_arch:
  "fst (installDMG rt a d fs) \<noteq> Inl UnsupportedArchitectureCombination"
  by (simp add: installDMG_def detachAfter_def Let_def split: option.split list.split)

lemma install_not_arch:
  "fst (install rt a d fs) \<noteq> Inl UnsupportedArchitectureCombination"
  using extractZip_not_arch [of rt a d fs] extractTarBz2_not_arch [of rt a d fs]
    untarInto_not_arch [of rt TarGzip a d fs] untarInto_not_arch [of rt TarXz a d fs]
    installDMG_not_arch [of rt a d]
  by (simp add: install_def extractTarGz_def extractTarXz_def mkdir_def
        split: option.split node.split)

lemma downloadAndInstall_not_arch:
  "fst (downloadAndInstall rt f url a d w) \<noteq> Inl UnsupportedArchitectureCombination"
proof (cases "downloadFile rt url a w")
  case (Pair r w1)
  show ?thesis
  proof (cases r)
    case (Inl e)
    with Pair downloadFile_not_arch [of rt url a w] show ?thesis
      by (simp add: downloadAndInstall_def)
  next
    case (Inr u)
    show ?thesis
    proof (cases "firefoxLinux f")
      case False
      with Pair Inr install_not_arch [of rt a d "files w1"] show ?thesis
        by (auto simp add: downloadAndInstall_def split: prod.split)
    next
      case True
      obtain r2 fs2 where det: "detectAndRenameArchive rt a (files w1) = (r2, fs2)"
        by (cases "detectAndRenameArchive rt a (files w1)")
      show ?thesis
      proof (cases r2)
        case (Inl e)
        with Pair Inr True det detectAndRenameArchive_not_arch [of rt a "files w1"]
        show ?thesis by (simp add: downloadAndInstall_def)
      next
        case (Inr actual)
        with Pair \<open>r = Inr u\<close> True det install_not_arch [of rt actual d fs2]
        show ?thesis by (auto simp add: downloadAndInstall_def split: prod.split)
      qed
    qed
  qed
qed

lemma markExecutable_not_arch:
  "fst (markExecutable rt f revision w) \<noteq> Inl UnsupportedArchitectureCombination"
  by (simp add: markExecutable_def Let_def chmod_def)

lemma archiveFileName_not_arch:
  "fst (archiveFileName rt f url revision w) \<noteq> Inl UnsupportedArchitectureCombination"
  by (simp add: archiveFileName_def Let_def split: option.split)

lemma download_arch_error:
  assumes "fst (download rt f revision w) = Inl UnsupportedArchitectureCombination"
  shows "build_arch rt = ''arm64'' \<and> f_product f = Chrome"
proof -
  let ?url = "downloadURL rt (f_product f) (f_platform f) (f_downloadHost f) revision"
  obtain r1 w1 where nm: "archiveFileName rt f ?url revision w = (r1, w1)"
    by (cases "archiveFileName rt f ?url revision w")
  show ?thesis
  proof (cases r1)
    case (Inl e)
    with nm have "download rt f revision w = (Inl e, w1)"
      by (simp add: download_name_error)
    with assms Inl nm archiveFileName_not_arch [of rt f ?url revision w]
    show ?thesis by simp
  next
    case (Inr fileName)
    with nm have nm': "archiveFileName rt f ?url revision w = (Inr fileName, w1)" by simp
    show ?thesis
    proof (rule ccontr)
      assume no: "\<not> (build_arch rt = ''arm64'' \<and> f_product f = Chrome)"
      let ?w2 = "w1\<lparr>files := (if \<not> exists (files w1) (f_downloadsFolder f)
                                 then files w1 @ [(f_downloadsFolder f, Dir)]
                                 else files w1)\<rparr>"
      let ?a = "pathJoin [f_downloadsFolder f, fileName]"
      obtain r3 w3 where di:
        "downloadAndInstall rt f ?url ?a (getFolderPath f revision) ?w2 = (r3, w3)"
        by (cases "downloadAndInstall rt f ?url ?a (getFolderPath f revision) ?w2")
      from downloadAndInstall_not_arch [of rt f ?url ?a "getFolderPath f revision" ?w2] di
      have r3: "r3 \<noteq> Inl UnsupportedArchitectureCombination" by simp
      from assms no di r3
        markExecutable_not_arch [of rt f revision "w3\<lparr>files := cleanup ?a (files w3)\<rparr>"]
      show False
        by (simp add: download_after_name [OF nm'] Let_def split: if_splits sum.splits)
    qed
  qed
qed

text \<open>
  The architecture check as it is written. It reads the architecture string of the
  runtime and the product, never the platform of the fetcher, and it comes after the
  short-circuit on the existing folder: a runtime that reported \<open>arm64\<close> would refuse
  every Chrome download whose folder does not exist, a Chrome revision whose folder
  exists is returned on every host, and the error is raised in no other situation.
\<close>

lemma architecture_check:
  "(build_arch rt = ''arm64'' \<and> f_product f = Chrome \<and>
      \<not> exists (files w) (getFolderPath f revision) \<longrightarrow>
        fst (download rt f revision w) = Inl UnsupportedArchitectureCombination
        \<and> requests (snd (download rt f revision w)) = requests w
        \<and> progress (snd (download rt f revision w)) = progress w)
   \<and> (f_product f = Chrome \<and> exists (files w) (getFolderPath f revision) \<longrightarrow>
        download rt f revision w = (Inr (revisionInfo rt f revision (files w)), w))
   \<and> (fst (download rt f revision w) = Inl UnsupportedArchitectureCombination \<longrightarrow>
        build_arch rt = ''arm64'' \<and> f_product f = Chrome \<and>
        \<not> exists (files w) (getFolderPath f revision))"
proof (intro conjI impI)
  let ?url = "downloadURL rt (f_product f) (f_platform f) (f_downloadHost f) revision"
  {
    assume h: "build_arch rt = ''arm64'' \<and> f_product f = Chrome \<and>
      \<not> exists (files w) (getFolderPath f revision)"
    then have "\<not> firefoxLinux f" by (simp add: chrome_not_firefoxLinux)
    then have nm: "archiveFileName rt f ?url revision w = (Inr (last (split CHR ''/'' ?url)), w)"
      by (rule archiveFileName_other)
    from h show "fst (download rt f revision w) = Inl UnsupportedArchitectureCombination"
      by (simp add: download_after_name [OF nm] Let_def)
    from h show "requests (snd (download rt f revision w)) = requests w"
      by (simp add: download_after_name [OF nm] Let_def)
    from h show "progress (snd (download rt f revision w)) = progress w"
      by (simp add: download_after_name [OF nm] Let_def)
  }
  {
    assume h: "f_product f = Chrome \<and> exists (files w) (getFolderPath f revision)"
    then have "\<not> firefoxLinux f" by (simp add: chrome_not_firefoxLinux)
    then have nm: "archiveFileName rt f ?url revision w = (Inr (last (split CHR ''/'' ?url)), w)"
      by (rule archiveFileName_other)
    from h show "download rt f revision w = (Inr (revisionInfo rt f revision (files w)), w)"
      by (simp add: download_after_name [OF nm])
  }
  {
    assume e: "fst (download rt f revision w) = Inl UnsupportedArchitectureCombination"
    then have ac: "build_arch rt = ''arm64'' \<and> f_product f = Chrome"
      by (rule download_arch_error)
    then show "build_arch rt = ''arm64''" and "f_product f = Chrome" by simp_all
    from ac have "\<not> firefoxLinux f" by (simp add: chrome_not_firefoxLinux)
    then have nm: "archiveFileName rt f ?url revision w = (Inr (last (split CHR ''/'' ?url)), w)"
      by (rule archiveFileName_other)
    from e show "\<not> exists (files w) (getFolderPath f revision)"
      by (auto simp add: download_after_name [OF nm])
  }
qed


text \<open>A runtime that does not report \<open>arm64\<close> never refuses a download.\<close>

lemma download_not_refused:
  assumes "build_arch rt \<noteq> ''arm64''"
  shows "fst (download rt f revision w) \<noteq> Inl UnsupportedArchitectureCombination"
  using assms download_arch_error [of rt f revision w] by blast

text \<open>
  C10 does not hold of the code. On an ARM64 host the runtime reports the architecture
  \<open>aarch64\<close>, the comparison with \<open>"arm64"\<close> is false, and a Chrome download of a
  revision that is not installed is not refused: the GET request is sent and the
  archive is installed, for a fetcher configured for \<open>linux\<close> and for one configured
  for \<open>linux-arm64\<close> alike.
\<close>

theorem chrome_download_on_aarch64:
  "build_arch aarch64Runtime = ''aarch64''
   \<and> f_product chromeFetcher = Chrome
   \<and> \<not> exists (files emptyWorld) (getFolderPath chromeFetcher ''1022525'')
   \<and> download aarch64Runtime chromeFetcher ''1022525'' emptyWorld =
       (Inr (revisionInfo aarch64Runtime chromeFetcher ''1022525''
               [(''/cache/deno_puppeteer/chromium'', Dir),
                (''/cache/deno_puppeteer/chromium/linux-1022525'', Dir),
                (''/cache/deno_puppeteer/chromium/linux-1022525/chrome-linux'', Dir),
                (''/cache/deno_puppeteer/chromium/linux-1022525/chrome-linux/chrome'',
                 File [0x7F])]),
        \<lparr>files = [(''/cache/deno_puppeteer/chromium'', Dir),
                  (''/cache/deno_puppeteer/chromium/linux-1022525'', Dir),
                  (''/cache/deno_puppeteer/chromium/linux-1022525/chrome-linux'', Dir),
                  (''/cache/deno_puppeteer/chromium/linux-1022525/chrome-linux/chrome'',
                   File [0x7F])],
           requests = [(GET, ''https://storage.googleapis.com/chromium-browser-snapshots/Linux_x64/1022525/chrome-linux.zip'')],
           progress = [(8, NaN), (11, NaN)]\<rparr>)
   \<and> fst (download aarch64Runtime (chromeFetcher\<lparr>f_platform := LinuxArm64\<rparr>) ''1022525''
            emptyWorld) \<noteq> Inl UnsupportedArchitectureCombination
   \<and> requests (snd (download aarch64Runtime (chromeFetcher\<lparr>f_platform := LinuxArm64\<rparr>)
                      ''1022525'' emptyWorld)) =
       [(GET, ''https://storage.googleapis.com/chromium-browser-snapshots/Linux_arm64/1022525/chrome-linux.zip'')]"
  by code_simp

subsection \<open>download: the short-circuit\<close>

lemma markExecutable_result:
  assumes "markExecutable rt f revision w = (Inr info, w1)"
  shows "info = revisionInfo rt f revision (files w1) \<and> w1 = w"
  using assms
  by (auto simp add: markExecutable_def Let_def chmod_def split: if_splits)

lemma download_success_info:
  assumes "download rt f revision w = (Inr info, w1)"
  shows "info = revisionInfo rt f revision (files w1)"
    and "firefoxLinux f \<Longrightarrow>
         fetch rt HEAD (downloadURL rt (f_product f) (f_platform f) (f_downloadHost f) revision)
           \<noteq> None"
proof -
  let ?url = "downloadURL rt (f_product f) (f_platform f) (f_downloadHost f) revision"
  obtain r0 w0 where nm: "archiveFileName rt f ?url revision w = (r0, w0)"
    by (cases "archiveFileName rt f ?url revision w")
  from nm assms obtain fileName where r0: "r0 = Inr fileName"
    by (cases r0) (simp_all add: download_name_error)
  with nm have nm': "archiveFileName rt f ?url revision w = (Inr fileName, w0)" by simp
  show "firefoxLinux f \<Longrightarrow> fetch rt HEAD ?url \<noteq> None"
    using nm' archiveFileName_firefoxLinux(1) [of f rt ?url revision w] by auto
  show "info = revisionInfo rt f revision (files w1)"
  proof (cases "exists (files w0) (getFolderPath f revision)")
    case True
    with assms show ?thesis by (auto simp add: download_after_name [OF nm'])
  next
    case False
    let ?w2 = "w0\<lparr>files := (if \<not> exists (files w0) (f_downloadsFolder f)
                                 then files w0 @ [(f_downloadsFolder f, Dir)]
                                 else files w0)\<rparr>"
    let ?a = "pathJoin [f_downloadsFolder f, fileName]"
    obtain r3 w3 where di:
      "downloadAndInstall rt f ?url ?a (getFolderPath f revision) ?w2 = (r3, w3)"
      by (cases "downloadAndInstall rt f ?url ?a (getFolderPath f revision) ?w2")
    from assms False di
    have "markExecutable rt f revision (w3\<lparr>files := cleanup ?a (files w3)\<rparr>) = (Inr info, w1)"
      by (simp add: download_after_name [OF nm'] Let_def split: if_splits sum.splits)
    then show ?thesis by (simp add: markExecutable_result)
  qed
qed


text \<open>
  C2, as amended. With \<open>url\<close> the download URL of the revision:
  \<^item> when the folder of the revision exists and the fetcher is not Firefox on one of the
    two Linux platforms, \<open>download\<close> returns the revision info and changes nothing: no
    request is sent;
  \<^item> when the folder exists and the fetcher is Firefox on Linux, \<open>download\<close> first
    sends one HEAD request to \<open>url\<close> (for the file name) and, if that request is
    answered, returns the revision info with no file changed and no GET request;
  \<^item> after a call that returned an info marked local, a second call for the same
    revision (the server answering the HEAD request as before) returns the same info,
    changes no file, reports no progress, and sends no request other than that HEAD
    request.
\<close>

theorem download_idempotent:
  "(exists (files w) (getFolderPath f revision) \<and> \<not> firefoxLinux f \<longrightarrow>
      download rt f revision w = (Inr (revisionInfo rt f revision (files w)), w))
   \<and> (exists (files w) (getFolderPath f revision) \<and> firefoxLinux f \<and>
      fetch rt HEAD (downloadURL rt (f_product f) (f_platform f) (f_downloadHost f) revision)
        \<noteq> None \<longrightarrow>
      download rt f revision w =
        (Inr (revisionInfo rt f revision (files w)),
         w\<lparr>requests := requests w @
            [(HEAD, downloadURL rt (f_product f) (f_platform f) (f_downloadHost f) revision)]\<rparr>))
   \<and> (download rt f revision w = (Inr info, w') \<and> ri_local info \<longrightarrow>
      download rt f revision w' =
        (Inr info,
         w'\<lparr>requests := requests w' @
            (if firefoxLinux f
             then [(HEAD, downloadURL rt (f_product f) (f_platform f) (f_downloadHost f) revision)]
             else [])\<rparr>))"
proof -
  let ?url = "downloadURL rt (f_product f) (f_platform f) (f_downloadHost f) revision"
  have other: "download rt f revision v = (Inr (revisionInfo rt f revision (files v)), v)"
    if "exists (files v) (getFolderPath f revision)" and "\<not> firefoxLinux f" for v
  proof -
    from that(2)
    have nm: "archiveFileName rt f ?url revision v = (Inr (last (split CHR ''/'' ?url)), v)"
      by (rule archiveFileName_other)
    from that(1) show ?thesis by (simp add: download_after_name [OF nm])
  qed
  have linux: "download rt f revision v =
        (Inr (revisionInfo rt f revision (files v)),
         v\<lparr>requests := requests v @ [(HEAD, ?url)]\<rparr>)"
    if "exists (files v) (getFolderPath f revision)" and "firefoxLinux f"
      and "fetch rt HEAD ?url \<noteq> None" for v
  proof -
    from that(2,3) obtain fileName where
      nm: "archiveFileName rt f ?url revision v =
             (Inr fileName, v\<lparr>requests := requests v @ [(HEAD, ?url)]\<rparr>)"
      using archiveFileName_firefoxLinux(2) [of f rt ?url revision v] by blast
    from that(1) show ?thesis by (simp add: download_after_name [OF nm])
  qed
  have twice: "download rt f revision w' =
        (Inr info, w'\<lparr>requests := requests w' @ (if firefoxLinux f then [(HEAD, ?url)] else [])\<rparr>)"
    if first: "download rt f revision w = (Inr info, w')" and loc: "ri_local info"
  proof -
    from first have info: "info = revisionInfo rt f revision (files w')"
      by (rule download_success_info(1))
    with loc have ex: "exists (files w') (getFolderPath f revision)"
      by (simp add: revisionInfo_def Let_def)
    show ?thesis
    proof (cases "firefoxLinux f")
      case False
      with other [OF ex False] info show ?thesis by simp
    next
      case True
      from first True have "fetch rt HEAD ?url \<noteq> None"
        by (rule download_success_info(2))
      with linux [OF ex True] info True show ?thesis by simp
    qed
  qed
  from other [of w] linux [of w] twice show ?thesis by blast
qed


theorem download_idempotent_witness:
  "exists [(''/cache/deno_puppeteer/chromium/linux-1022525'', Dir)]
      (getFolderPath chromeFetcher ''1022525'')
   \<and> \<not> firefoxLinux chromeFetcher
   \<and> download exampleRuntime chromeFetcher ''1022525''
         \<lparr>files = [(''/cache/deno_puppeteer/chromium/linux-1022525'', Dir)],
            requests = [], progress = []\<rparr> =
       (Inr (revisionInfo exampleRuntime chromeFetcher ''1022525''
               [(''/cache/deno_puppeteer/chromium/linux-1022525'', Dir)]),
        \<lparr>files = [(''/cache/deno_puppeteer/chromium/linux-1022525'', Dir)],
           requests = [], progress = []\<rparr>)
   \<and> exists (files installedWorld) (getFolderPath firefoxFetcher ''141.0a1'')
   \<and> firefoxLinux firefoxFetcher
   \<and> fetch exampleRuntime HEAD (downloadURL exampleRuntime Firefox Linux [] []) \<noteq> None
   \<and> download exampleRuntime firefoxFetcher ''141.0a1'' installedWorld =
       (Inr (revisionInfo exampleRuntime firefoxFetcher ''141.0a1'' (files installedWorld)),
        installedWorld\<lparr>requests := [(HEAD, downloadURL exampleRuntime Firefox Linux [] [])]\<rparr>)
   \<and> download exampleRuntime firefoxFetcher ''141.0a1'' emptyWorld =
       (Inr (revisionInfo exampleRuntime firefoxFetcher ''141.0a1'' (files downloadedWorld)),
        downloadedWorld)
   \<and> ri_local (revisionInfo exampleRuntime firefoxFetcher ''141.0a1'' (files downloadedWorld))
   \<and> download exampleRuntime firefoxFetcher ''141.0a1'' downloadedWorld =
       (Inr (revisionInfo exampleRuntime firefoxFetcher ''141.0a1'' (files downloadedWorld)),
        downloadedWorld\<lparr>requests := requests downloadedWorld @
           [(HEAD, downloadURL exampleRuntime Firefox Linux [] [])]\<rparr>)"
proof -
  let ?wc = "\<lparr>files = [(''/cache/deno_puppeteer/chromium/linux-1022525'', Dir)],
            requests = [], progress = []\<rparr>"
  let ?u = "downloadURL exampleRuntime Firefox Linux [] []"
  let ?info = "revisionInfo exampleRuntime firefoxFetcher ''141.0a1'' (files downloadedWorld)"
  have url: "downloadURL exampleRuntime (f_product firefoxFetcher) (f_platform firefoxFetcher)
               (f_downloadHost firefoxFetcher) ''141.0a1'' = ?u"
    by (simp add: firefoxFetcher_def downloadURL_def)
  have c1: "exists (files ?wc) (getFolderPath chromeFetcher ''1022525'')"
    by code_simp
  have c2: "\<not> firefoxLinux chromeFetcher"
    by (simp add: firefoxLinux_def chromeFetcher_def)
  have f1: "exists (files installedWorld) (getFolderPath firefoxFetcher ''141.0a1'')"
    by code_simp
  have f2: "firefoxLinux firefoxFetcher"
    by (simp add: firefoxLinux_def firefoxFetcher_def)
  have f3: "fetch exampleRuntime HEAD ?u \<noteq> None"
    by (simp add: exampleRuntime_def)
  have first: "download exampleRuntime firefoxFetcher ''141.0a1'' emptyWorld =
      (Inr ?info, downloadedWorld)"
    by code_simp
  have loc: "ri_local ?info"
    by code_simp
  note chrome = download_idempotent [where rt = exampleRuntime and f = chromeFetcher
      and revision = "''1022525''" and w = ?wc]
  note firefox = download_idempotent [where rt = exampleRuntime and f = firefoxFetcher
      and revision = "''141.0a1''" and w = installedWorld, unfolded url]
  note again = download_idempotent [where rt = exampleRuntime and f = firefoxFetcher
      and revision = "''141.0a1''" and w = emptyWorld and info = ?info and w' = downloadedWorld,
      unfolded url]
  from chrome c1 c2
  have r1: "download exampleRuntime chromeFetcher ''1022525'' ?wc =
      (Inr (revisionInfo exampleRuntime chromeFetcher ''1022525'' (files ?wc)), ?wc)"
    by blast
  from firefox f1 f2 f3
  have r2: "download exampleRuntime firefoxFetcher ''141.0a1'' installedWorld =
      (Inr (revisionInfo exampleRuntime firefoxFetcher ''141.0a1'' (files installedWorld)),
       installedWorld\<lparr>requests := requests installedWorld @ [(HEAD, ?u)]\<rparr>)"
    by blast
  from again first loc f2
  have r3: "download exampleRuntime firefoxFetcher ''141.0a1'' downloadedWorld =
      (Inr ?info, downloadedWorld\<lparr>requests := requests downloadedWorld @ [(HEAD, ?u)]\<rparr>)"
    by simp
  have nil: "requests installedWorld = []" by (simp add: installedWorld_def)
  from c1 c2 r1 f1 f2 f3 r2 first loc r3 show ?thesis
    by (simp add: nil)
qed

text \<open>
  C2 as stated fails for Firefox on Linux: with the folder of the revision already on
  disk, the call still sends a HEAD request before it returns.
\<close>

theorem download_short_circuit_counterexample:
  "exists (files installedWorld) (getFolderPath firefoxFetcher ''141.0a1'')
   \<and> requests installedWorld = []
   \<and> requests (snd (download exampleRuntime firefoxFetcher ''141.0a1'' installedWorld)) =
       [(HEAD, downloadURL exampleRuntime Firefox Linux [] [])]"
  by code_simp


subsection \<open>download: the cleanup of the archive\<close>

lemma cleanup_removes: "\<not> exists (cleanup p fs) p"
  by (simp add: cleanup_def exists_removeRecursive pathUnder_self)

lemma markExecutable_files: "files (snd (markExecutable rt f revision w)) = files w"
  by (simp add: markExecutable_def Let_def chmod_def)

text \<open>
  What the \<open>finally\<close> block achieves: whenever \<open>download\<close> gets as far as its \<open>try\<close>
  block, no entry is left at the path the archive was downloaded to.
\<close>

lemma download_removes_archivePath:
  assumes nm: "archiveFileName rt f
             (downloadURL rt (f_product f) (f_platform f) (f_downloadHost f) revision)
             revision w = (Inr fileName, v)"
    and fresh: "\<not> exists (files v) (getFolderPath f revision)"
    and supported: "\<not> (build_arch rt = ''arm64'' \<and> f_product f = Chrome)"
  shows "\<not> exists (files (snd (download rt f revision w)))
             (pathJoin [f_downloadsFolder f, fileName])"
proof -
  let ?url = "downloadURL rt (f_product f) (f_platform f) (f_downloadHost f) revision"
  let ?a = "pathJoin [f_downloadsFolder f, fileName]"
  let ?w2 = "v\<lparr>files := (if \<not> exists (files v) (f_downloadsFolder f)
                            then files v @ [(f_downloadsFolder f, Dir)]
                            else files v)\<rparr>"
  obtain r3 w3 where di:
    "downloadAndInstall rt f ?url ?a (getFolderPath f revision) ?w2 = (r3, w3)"
    by (cases "downloadAndInstall rt f ?url ?a (getFolderPath f revision) ?w2")
  from supported have no: "(build_arch rt = ''arm64'' \<and> f_product f = Chrome) = False"
    by simp
  show ?thesis
  proof (cases r3)
    case (Inl e)
    with fresh di show ?thesis
      by (simp add: download_after_name [OF nm] no Let_def cleanup_removes)
  next
    case (Inr u)
    with fresh di show ?thesis
      by (simp add: download_after_name [OF nm] no Let_def markExecutable_files cleanup_removes)
  qed
qed

text \<open>
  C1 does not hold of the code. On the example host the server sends an XZ archive for
  Firefox on Linux; it is stored as \<open>firefox-141.0a1.en-US.linux-x86_64.tar.bz2\<close>,
  renamed to \<open>....tar.xz\<close> by the sniffer, and the \<open>finally\<close> block then looks for the old
  name only. The renamed archive is still on disk after the download, both when the
  extraction succeeds and when it fails.
\<close>

theorem download_leaves_renamed_archive:
  "download exampleRuntime firefoxFetcher ''141.0a1'' emptyWorld =
     (Inr (revisionInfo exampleRuntime firefoxFetcher ''141.0a1'' (files downloadedWorld)),
      downloadedWorld)
   \<and> fileContent (files downloadedWorld)
         ''/cache/deno_puppeteer/firefox/firefox-141.0a1.en-US.linux-x86_64.tar.xz'' =
       Some (concat xzArchive)
   \<and> fst (download failingTarRuntime firefoxFetcher ''141.0a1'' emptyWorld) =
       Inl (ExtractionFailed ''failed untar'')
   \<and> fileContent (files (snd (download failingTarRuntime firefoxFetcher ''141.0a1'' emptyWorld)))
         ''/cache/deno_puppeteer/firefox/firefox-141.0a1.en-US.linux-x86_64.tar.xz'' =
       Some (concat xzArchive)"
  by code_simp


end
